theory Spec2Isabelle
  imports Complex_Main "HOL-Library.Word" "HOL-Library.Signed_Division"
    "HOL-Library.Char_ord" "HOL-Library.List_Lexorder"
begin

section \<open>Request integrity layer of the ACP Go SDK\<close>

text \<open>
  A shallow embedding of the signature, authentication, error-transport and webhook code of
  \<^verbatim>\<open>github.com/sumup/acp\<close>. Go strings and byte slices are \<open>char list\<close> (a \<open>char\<close> is one
  byte). \<^verbatim>\<open>time.Duration\<close> and \<^verbatim>\<open>int64\<close> are 64-bit words read in two's complement, so
  negation and increment wrap as they do in Go. Library calls whose result this repository
  does not determine (HMAC-SHA256, time parsing and formatting, the HTTP client) are fields of a record \<open>Lib\<close> that the functions using them take as
  their first argument; the decoders and encoders the claims depend on (base64, the JSON
  decoder, space trimming, header keys) are written out after the Go library.
\<close>

subsection \<open>Machine integers and durations\<close>

type_synonym int64 = "64 word"
type_synonym Duration = "64 word"

text \<open>Go's \<^verbatim>\<open>/\<close> and \<^verbatim>\<open>%\<close> on signed integers truncate towards zero and wrap.\<close>

definition go_div :: "int64 \<Rightarrow> int64 \<Rightarrow> int64" where
  "go_div a b = word_of_int (sint a sdiv sint b)"

definition go_mod :: "int64 \<Rightarrow> int64 \<Rightarrow> int64" where
  "go_mod a b = word_of_int (sint a smod sint b)"

definition Nanosecond :: Duration where "Nanosecond = 1"
definition Millisecond :: Duration where "Millisecond = 1000000"
definition Second :: Duration where "Second = 1000000000"
definition Minute :: Duration where "Minute = 60000000000"

subsection \<open>strconv.FormatInt in base 10\<close>

definition digit_char :: "nat \<Rightarrow> char" where
  "digit_char d = char_of (48 + d)"

fun digits10 :: "nat \<Rightarrow> string" where
  "digits10 n = (if n < 10 then [digit_char n] else digits10 (n div 10) @ [digit_char (n mod 10)])"

declare digits10.simps [simp del]

definition FormatInt :: "int64 \<Rightarrow> string" where
  "FormatInt i = (if sint i < 0 then CHR ''-'' # digits10 (nat (- sint i)) else digits10 (nat (sint i)))"

subsection \<open>errors.go: the structured error\<close>

type_synonym ErrorType = string
type_synonym ErrorCode = string

definition InvalidRequest :: ErrorType where "InvalidRequest = ''invalid_request''"
definition ProcessingError :: ErrorType where "ProcessingError = ''processing_error''"
definition RateLimitExceeded :: ErrorType where "RateLimitExceeded = ''rate_limit_exceeded''"
definition ServiceUnavailable :: ErrorType where "ServiceUnavailable = ''service_unavailable''"

definition InvalidSignature :: ErrorCode where "InvalidSignature = ''invalid_signature''"
definition SignatureRequired :: ErrorCode where "SignatureRequired = ''signature_required''"
definition StaleTimestamp :: ErrorCode where "StaleTimestamp = ''stale_timestamp''"
definition MissingAuthorization :: ErrorCode where "MissingAuthorization = ''missing_authorization''"
definition InvalidAuthorization :: ErrorCode where "InvalidAuthorization = ''invalid_authorization''"

definition StatusBadRequest :: int where "StatusBadRequest = 400"
definition StatusUnauthorized :: int where "StatusUnauthorized = 401"
definition StatusTooManyRequests :: int where "StatusTooManyRequests = 429"
definition StatusInternalServerError :: int where "StatusInternalServerError = 500"
definition StatusServiceUnavailable :: int where "StatusServiceUnavailable = 503"

record Error =
  Type :: ErrorType
  Code :: ErrorCode
  Message :: string
  Param :: "string option"
  status :: int
  retryAfter :: Duration

text \<open>An \<^verbatim>\<open>errorOption\<close> mutates the error under construction; \<open>None\<close> is a nil option.\<close>

type_synonym errorOption = "(Error \<Rightarrow> Error) option"

definition WithOffendingParam :: "string \<Rightarrow> errorOption" where
  "WithOffendingParam jsonPath = Some (\<lambda>er. er\<lparr>Param := Some jsonPath\<rparr>)"

definition WithStatusCode :: "int \<Rightarrow> errorOption" where
  "WithStatusCode st = Some (\<lambda>er. er\<lparr>status := st\<rparr>)"

definition WithRetryAfter :: "Duration \<Rightarrow> errorOption" where
  "WithRetryAfter d = Some (\<lambda>er. er\<lparr>retryAfter := d\<rparr>)"

fun apply_opts :: "Error \<Rightarrow> errorOption list \<Rightarrow> Error" where
  "apply_opts e [] = e"
| "apply_opts e (None # opts) = apply_opts e opts"
| "apply_opts e (Some opt # opts) = apply_opts (opt e) opts"

definition newError :: "ErrorType \<Rightarrow> ErrorCode \<Rightarrow> string \<Rightarrow> errorOption list \<Rightarrow> Error" where
  "newError typ cod message opts =
     apply_opts \<lparr>Type = typ, Code = cod, Message = message, Param = None,
                 status = 0, retryAfter = 0\<rparr> opts"

definition NewRateLimitExceededError :: "string \<Rightarrow> errorOption list \<Rightarrow> Error" where
  "NewRateLimitExceededError message opts =
     newError RateLimitExceeded RateLimitExceeded message (WithStatusCode StatusTooManyRequests # opts)"

definition NewServiceUnavailableError :: "string \<Rightarrow> errorOption list \<Rightarrow> Error" where
  "NewServiceUnavailableError message opts =
     newError ServiceUnavailable ServiceUnavailable message (WithStatusCode StatusServiceUnavailable # opts)"

definition NewInvalidRequestError :: "string \<Rightarrow> errorOption list \<Rightarrow> Error" where
  "NewInvalidRequestError message opts =
     newError InvalidRequest InvalidRequest message (WithStatusCode StatusBadRequest # opts)"

definition NewProcessingError :: "string \<Rightarrow> errorOption list \<Rightarrow> Error" where
  "NewProcessingError message opts =
     newError ProcessingError ProcessingError message (WithStatusCode StatusInternalServerError # opts)"

definition NewHTTPError :: "int \<Rightarrow> ErrorType \<Rightarrow> ErrorCode \<Rightarrow> string \<Rightarrow> errorOption list \<Rightarrow> Error" where
  "NewHTTPError st typ cod message opts = newError typ cod message (opts @ [WithStatusCode st])"

text \<open>\<^verbatim>\<open>(*Error).RetryAfter\<close>: a nil receiver has no retry duration.\<close>

definition RetryAfter :: "Error option \<Rightarrow> Duration" where
  "RetryAfter e = (case e of None \<Rightarrow> 0 | Some er \<Rightarrow> retryAfter er)"

subsection \<open>HTTP headers\<close>

text \<open>
  \<^verbatim>\<open>http.Header\<close> is a map from canonical keys to value lists. \<^verbatim>\<open>Set\<close> and \<^verbatim>\<open>Get\<close>
  canonicalise the key they are given (\<^verbatim>\<open>textproto.CanonicalMIMEHeaderKey\<close>): a key of
  token bytes gets an upper-case first letter and upper case after each hyphen, lower case
  elsewhere; any other key is used unchanged.
\<close>

type_synonym Header = "string \<Rightarrow> string list option"

definition is_upper :: "char \<Rightarrow> bool" where
  "is_upper c = (65 \<le> (of_char c :: nat) \<and> (of_char c :: nat) \<le> 90)"

definition is_lower :: "char \<Rightarrow> bool" where
  "is_lower c = (97 \<le> (of_char c :: nat) \<and> (of_char c :: nat) \<le> 122)"

definition is_digit :: "char \<Rightarrow> bool" where
  "is_digit c = (48 \<le> (of_char c :: nat) \<and> (of_char c :: nat) \<le> 57)"

definition to_upper :: "char \<Rightarrow> char" where
  "to_upper c = (if is_lower c then char_of ((of_char c :: nat) - 32) else c)"

definition to_lower :: "char \<Rightarrow> char" where
  "to_lower c = (if is_upper c then char_of ((of_char c :: nat) + 32) else c)"

definition validHeaderFieldByte :: "char \<Rightarrow> bool" where
  "validHeaderFieldByte c =
     (is_upper c \<or> is_lower c \<or> is_digit c \<or> c \<in> set ''!#$%&*+-.^_`|~'' \<or> c = CHR 0x27)"

fun canonical_case :: "bool \<Rightarrow> string \<Rightarrow> string" where
  "canonical_case upper [] = []"
| "canonical_case upper (c # cs) =
     (if upper then to_upper c else to_lower c) # canonical_case (c = CHR ''-'') cs"

definition CanonicalMIMEHeaderKey :: "string \<Rightarrow> string" where
  "CanonicalMIMEHeaderKey s = (if list_all validHeaderFieldByte s then canonical_case True s else s)"

definition Header_Set :: "Header \<Rightarrow> string \<Rightarrow> string \<Rightarrow> Header" where
  "Header_Set h k v = h(CanonicalMIMEHeaderKey k \<mapsto> [v])"

definition Header_Get :: "Header \<Rightarrow> string \<Rightarrow> string" where
  "Header_Get h k =
     (case h (CanonicalMIMEHeaderKey k) of None \<Rightarrow> [] | Some [] \<Rightarrow> [] | Some (v # vs) \<Rightarrow> v)"

subsection \<open>httptransport.go: writing a structured error\<close>

definition retryAfterSeconds :: "Duration \<Rightarrow> int64" where
  "retryAfterSeconds d =
     (if d \<le>s 0 then 0
      else let seconds = go_div d Second;
               seconds = (if go_mod d Second \<noteq> 0 then seconds + 1 else seconds)
           in if seconds \<le>s 0 then 1 else seconds)"

text \<open>
  \<^verbatim>\<open>w.WriteHeader(code)\<close> of net/http checks the code before anything is sent: a code below
  100 or above 999 makes it panic (\<^verbatim>\<open>invalid WriteHeader code\<close>), and then no status line,
  header or body reaches the client.
\<close>

datatype panic = invalidWriteHeaderCode int

definition checkWriteHeaderCode :: "int \<Rightarrow> panic option" where
  "checkWriteHeaderCode code =
     (if code < 100 \<or> 999 < code then Some (invalidWriteHeaderCode code) else None)"

text \<open>
  What \<^verbatim>\<open>writeJSONError\<close> leaves on the response writer: the header map, the status line
  and the payload handed to the JSON encoder (of which only \<open>Type\<close>, \<open>Code\<close>, \<open>Message\<close>
  and \<open>Param\<close> are serialised), or the panic of \<^verbatim>\<open>WriteHeader\<close> (\<open>Inl\<close>). The first argument
  is the package constant \<^verbatim>\<open>APIVersion\<close>, the second the writer's header map before the
  call.
\<close>

record Response =
  responseHeader :: Header
  statusCode :: int
  responsePayload :: Error

definition writeJSONError :: "string \<Rightarrow> Header \<Rightarrow> Error option \<Rightarrow> panic + Response" where
  "writeJSONError APIVersion w p =
     (let payload = (case p of None \<Rightarrow> NewProcessingError ''internal server error'' [] | Some e \<Rightarrow> e);
          h = Header_Set w ''Content-Type'' ''application/json'';
          h = Header_Set h ''API-Version'' APIVersion;
          seconds = retryAfterSeconds (RetryAfter (Some payload));
          h = (if 0 <s seconds then Header_Set h ''Retry-After'' (FormatInt seconds) else h)
      in case checkWriteHeaderCode (status payload) of
           Some pnc \<Rightarrow> Inl pnc
         | None \<Rightarrow> Inr \<lparr>responseHeader = h, statusCode = status payload, responsePayload = payload\<rparr>)"

subsection \<open>Go error values\<close>

text \<open>
  A Go \<^verbatim>\<open>error\<close> is an interface value. Its shapes, as far as \<^verbatim>\<open>errors.As\<close> with a target
  of type \<^verbatim>\<open>*Error\<close> can tell them apart: an opaque error carrying a message
  (\<^verbatim>\<open>errors.New\<close>); an error that wraps another one (\<^verbatim>\<open>Unwrap() error\<close>, as built by
  \<^verbatim>\<open>fmt.Errorf\<close> with \<^verbatim>\<open>%w\<close>); an error that wraps several (\<^verbatim>\<open>Unwrap() []error\<close>, as built
  by \<^verbatim>\<open>errors.Join\<close>); an error of another type whose own \<^verbatim>\<open>As\<close> method answers true and
  stores an \<^verbatim>\<open>*Error\<close> in the target; and a pointer to the package's own \<open>Error\<close>, which
  may be a nil pointer inside a non-nil interface. An \<^verbatim>\<open>As\<close> method that answers false, an
  \<^verbatim>\<open>Unwrap\<close> that answers nil and nil entries of a joined list leave the search as the
  same shapes without them do. A nil \<^verbatim>\<open>error\<close> is \<open>None\<close> of \<open>go_error option\<close>.
\<close>

datatype go_error =
    errorString string
  | wrapError string go_error
  | joinError "go_error list"
  | asError string "Error option"
  | acpError "Error option"

text \<open>
  \<^verbatim>\<open>errors.As(err, &httpErr)\<close> with a target of type \<^verbatim>\<open>*Error\<close>: the chain is walked depth
  first, a joined list in its order; the search stops at the first error that is an
  \<^verbatim>\<open>*Error\<close> or whose \<^verbatim>\<open>As\<close> method fills the target.
\<close>

fun errors_As :: "go_error \<Rightarrow> Error option option"
  and errors_As_any :: "go_error list \<Rightarrow> Error option option"
where
  "errors_As (acpError p) = Some p"
| "errors_As (asError m p) = Some p"
| "errors_As (wrapError m e) = errors_As e"
| "errors_As (joinError es) = errors_As_any es"
| "errors_As (errorString m) = None"
| "errors_As_any [] = None"
| "errors_As_any (e # es) = (case errors_As e of Some p \<Rightarrow> Some p | None \<Rightarrow> errors_As_any es)"

subsection \<open>encoding/base64: RawURLEncoding\<close>

text \<open>
  The URL-safe alphabet of RFC 4648 without padding. \<^verbatim>\<open>DecodeString\<close> is the lenient
  decoder of the Go library: carriage returns and line feeds are skipped, any other byte
  outside the alphabet (the padding character included) is corrupt input, a final group of
  one character is corrupt input, and the unused low bits of a final group of two or three
  characters are not checked.
\<close>

definition encodeURL :: string where
  "encodeURL = ''ABCDEFGHIJKLMNOPQRSTUVWXYZabcdefghijklmnopqrstuvwxyz0123456789-_''"

definition encode_sextet :: "nat \<Rightarrow> char" where
  "encode_sextet n = encodeURL ! (n mod 64)"

text \<open>Three bytes as one 24-bit group, the unit the encoder and decoder work on.\<close>

definition group24 :: "char \<Rightarrow> char \<Rightarrow> char \<Rightarrow> nat" where
  "group24 a b c = of_char a * 65536 + of_char b * 256 + of_char c"

fun EncodeToString :: "string \<Rightarrow> string" where
  "EncodeToString (a # b # c # rest) =
     (let val = of_char a * 65536 + of_char b * 256 + of_char c
      in encode_sextet (val div 262144) # encode_sextet (val div 4096) #
         encode_sextet (val div 64) # encode_sextet val # EncodeToString rest)"
| "EncodeToString [a, b] =
     (let val = of_char a * 65536 + of_char b * 256
      in [encode_sextet (val div 262144), encode_sextet (val div 4096), encode_sextet (val div 64)])"
| "EncodeToString [a] =
     (let val = of_char a * 65536
      in [encode_sextet (val div 262144), encode_sextet (val div 4096)])"
| "EncodeToString [] = []"

definition decodeMap :: "char \<Rightarrow> nat option" where
  "decodeMap c = map_of (zip encodeURL [0..<64]) c"

definition CorruptInputError :: go_error where
  "CorruptInputError = errorString ''illegal base64 data''"

fun quantum_value :: "nat list \<Rightarrow> nat" where
  "quantum_value [] = 0"
| "quantum_value [a] = a * 262144"
| "quantum_value [a, b] = a * 262144 + b * 4096"
| "quantum_value [a, b, c] = a * 262144 + b * 4096 + c * 64"
| "quantum_value (a # b # c # d # others) = a * 262144 + b * 4096 + c * 64 + d"

text \<open>
  \<open>decode_from dbuf src\<close>: \<open>dbuf\<close> holds the sextets of the current group read so far.
\<close>

fun decode_from :: "nat list \<Rightarrow> string \<Rightarrow> go_error + string" where
  "decode_from dbuf [] =
     (let val = quantum_value dbuf in
      if length dbuf = 0 then Inr []
      else if length dbuf = 1 then Inl CorruptInputError
      else if length dbuf = 2 then Inr [char_of (val div 65536)]
      else Inr [char_of (val div 65536), char_of (val div 256)])"
| "decode_from dbuf (c # src) =
     (case decodeMap c of
        Some out \<Rightarrow>
          (if length dbuf = 3 then
             (let val = quantum_value (dbuf @ [out]) in
              case decode_from [] src of
                Inl e \<Rightarrow> Inl e
              | Inr bs \<Rightarrow> Inr (char_of (val div 65536) # char_of (val div 256) # char_of val # bs))
           else decode_from (dbuf @ [out]) src)
      | None \<Rightarrow>
          (if c = CHR 0x0A \<or> c = CHR 0x0D then decode_from dbuf src
           else Inl CorruptInputError))"

definition DecodeString :: "string \<Rightarrow> go_error + string" where
  "DecodeString s = decode_from [] s"

subsection \<open>Instants and time.Time\<close>

text \<open>
  A \<^verbatim>\<open>time.Time\<close> is an instant (nanoseconds since the Unix epoch, not bounded by 64
  bits) shown in a zone (its offset from UTC in seconds). \<^verbatim>\<open>Sub\<close> follows the library:
  a difference that does not fit a \<open>Duration\<close> is replaced by the largest or smallest one.
\<close>

record Time =
  unixNano :: int
  zoneOffset :: int

definition UTC :: "Time \<Rightarrow> Time" where
  "UTC t = t\<lparr>zoneOffset := 0\<rparr>"

definition minDuration :: Duration where "minDuration = word_of_int (- (2 ^ 63))"
definition maxDuration :: Duration where "maxDuration = word_of_int (2 ^ 63 - 1)"

definition Sub :: "Time \<Rightarrow> Time \<Rightarrow> Duration" where
  "Sub t u =
     (let d = unixNano t - unixNano u in
      if d < - (2 ^ 63) then minDuration
      else if 2 ^ 63 - 1 < d then maxDuration
      else word_of_int d)"

definition RFC3339 :: string where "RFC3339 = ''2006-01-02T15:04:05Z07:00''"
definition RFC3339Nano :: string where "RFC3339Nano = ''2006-01-02T15:04:05.999999999Z07:00''"

subsection \<open>bytes.TrimSpace and strings.TrimSpace\<close>

text \<open>
  Both trim the runes for which \<^verbatim>\<open>unicode.IsSpace\<close> holds from either end: the six ASCII
  space bytes, and the UTF-8 encodings of U+0085, U+00A0, U+1680, U+2000 to U+200A, U+2028,
  U+2029, U+202F, U+205F and U+3000. A byte that starts no valid encoding is not a space.
\<close>

definition ascii_space :: "char \<Rightarrow> bool" where
  "ascii_space c = (c = CHR 0x09 \<or> c = CHR 0x0A \<or> c = CHR 0x0B \<or> c = CHR 0x0C \<or> c = CHR 0x0D \<or> c = CHR 0x20)"

definition space2 :: "char \<Rightarrow> char \<Rightarrow> bool" where
  "space2 a b = (a = CHR 0xC2 \<and> (b = CHR 0x85 \<or> b = CHR 0xA0))"

definition space3 :: "char \<Rightarrow> char \<Rightarrow> char \<Rightarrow> bool" where
  "space3 a b c =
     ((a = CHR 0xE1 \<and> b = CHR 0x9A \<and> c = CHR 0x80) \<or>
      (a = CHR 0xE2 \<and> b = CHR 0x80 \<and>
         ((0x80 \<le> (of_char c :: nat) \<and> (of_char c :: nat) \<le> 0x8A) \<or> c = CHR 0xA8 \<or> c = CHR 0xA9 \<or> c = CHR 0xAF)) \<or>
      (a = CHR 0xE2 \<and> b = CHR 0x81 \<and> c = CHR 0x9F) \<or>
      (a = CHR 0xE3 \<and> b = CHR 0x80 \<and> c = CHR 0x80))"

fun TrimLeftSpace :: "string \<Rightarrow> string" where
  "TrimLeftSpace (a # b # c # s) =
     (if ascii_space a then TrimLeftSpace (b # c # s)
      else if space2 a b then TrimLeftSpace (c # s)
      else if space3 a b c then TrimLeftSpace s
      else a # b # c # s)"
| "TrimLeftSpace [a, b] =
     (if ascii_space a then TrimLeftSpace [b] else if space2 a b then [] else [a, b])"
| "TrimLeftSpace [a] = (if ascii_space a then [] else [a])"
| "TrimLeftSpace [] = []"

text \<open>The same from the end, on the reversed bytes (so the encodings are read backwards).\<close>

fun trim_reversed :: "string \<Rightarrow> string" where
  "trim_reversed (c # b # a # s) =
     (if ascii_space c then trim_reversed (b # a # s)
      else if space2 b c then trim_reversed (a # s)
      else if space3 a b c then trim_reversed s
      else c # b # a # s)"
| "trim_reversed [c, b] =
     (if ascii_space c then trim_reversed [b] else if space2 b c then [] else [c, b])"
| "trim_reversed [c] = (if ascii_space c then [] else [c])"
| "trim_reversed [] = []"

definition TrimRightSpace :: "string \<Rightarrow> string" where
  "TrimRightSpace s = rev (trim_reversed (rev s))"

definition TrimSpace :: "string \<Rightarrow> string" where
  "TrimSpace s = TrimRightSpace (TrimLeftSpace s)"

subsection \<open>encoding/json: decoding one value into an interface\<close>

text \<open>
  What \<^verbatim>\<open>Decoder.Decode\<close> stores in an \<^verbatim>\<open>any\<close> when \<^verbatim>\<open>UseNumber\<close> is on: nil, a bool, a
  \<^verbatim>\<open>json.Number\<close> (the literal's text), a string, a slice, or a map. A Go map has no order
  and one value per key, so an object is kept as a list sorted by key with distinct keys.
\<close>

datatype json =
    JNull
  | JBool bool
  | JNumber string
  | JString string
  | JArray "json list"
  | JObject "(string \<times> json) list"

text \<open>\<open>m[k] = v\<close> on the sorted list of a map.\<close>

fun map_assign :: "string \<Rightarrow> 'v \<Rightarrow> (string \<times> 'v) list \<Rightarrow> (string \<times> 'v) list" where
  "map_assign k v [] = [(k, v)]"
| "map_assign k v ((k', v') # m) =
     (if k = k' then (k, v) # m
      else if k < k' then (k, v) # (k', v') # m
      else (k', v') # map_assign k v m)"

definition byte :: "char \<Rightarrow> int" where
  "byte c = of_char c"

definition json_space :: "char \<Rightarrow> bool" where
  "json_space c = (c = CHR 0x20 \<or> c = CHR 0x09 \<or> c = CHR 0x0D \<or> c = CHR 0x0A)"

definition skip_space :: "string \<Rightarrow> string" where
  "skip_space s = dropWhile json_space s"

definition SyntaxError :: go_error where
  "SyntaxError = errorString ''json: syntax error''"

definition hex_digit :: "char \<Rightarrow> bool" where
  "hex_digit c = (is_digit c \<or> c \<in> set ''abcdefABCDEF'')"

definition hex_value :: "char \<Rightarrow> int" where
  "hex_value c =
     (if is_digit c then byte c - 48
      else if is_lower c then byte c - 87
      else byte c - 55)"

text \<open>
  The scanner's view of a string literal, entered after the opening quote: the bytes up to
  the closing quote, and what follows it. Control bytes and malformed escapes are errors.
\<close>

fun string_literal :: "string \<Rightarrow> (string \<times> string) option" where
  "string_literal [] = None"
| "string_literal (c # cs) =
     (if c = CHR 0x22 then Some ([], cs)
      else if c = CHR 0x5C then
        (case cs of
           [] \<Rightarrow> None
         | e # cs' \<Rightarrow>
             (if e \<in> set ''bfnrt/'' \<or> e = CHR 0x5C \<or> e = CHR 0x22 then
                (case string_literal cs' of
                   None \<Rightarrow> None
                 | Some (lit, rest) \<Rightarrow> Some (c # e # lit, rest))
              else if e = CHR ''u'' then
                (case cs' of
                   h1 # h2 # h3 # h4 # cs'' \<Rightarrow>
                     (if hex_digit h1 \<and> hex_digit h2 \<and> hex_digit h3 \<and> hex_digit h4 then
                        (case string_literal cs'' of
                           None \<Rightarrow> None
                         | Some (lit, rest) \<Rightarrow> Some (c # e # h1 # h2 # h3 # h4 # lit, rest))
                      else None)
                 | _ \<Rightarrow> None)
              else None))
      else if byte c < 0x20 then None
      else (case string_literal cs of
              None \<Rightarrow> None
            | Some (lit, rest) \<Rightarrow> Some (c # lit, rest)))"

text \<open>UTF-8: the length of the valid encoding at the head of the bytes, 0 when there is none.\<close>

definition in_range :: "int \<Rightarrow> int \<Rightarrow> char \<Rightarrow> bool" where
  "in_range lo hi c = (lo \<le> byte c \<and> byte c \<le> hi)"

definition cont_byte :: "char \<Rightarrow> bool" where
  "cont_byte c = in_range 0x80 0xBF c"

definition second_byte :: "char \<Rightarrow> char \<Rightarrow> bool" where
  "second_byte a b =
     (if byte a = 0xE0 then in_range 0xA0 0xBF b
      else if byte a = 0xED then in_range 0x80 0x9F b
      else if byte a = 0xF0 then in_range 0x90 0xBF b
      else if byte a = 0xF4 then in_range 0x80 0x8F b
      else cont_byte b)"

fun utf8_width :: "string \<Rightarrow> nat" where
  "utf8_width [] = 0"
| "utf8_width (a # s) =
     (if byte a < 0x80 then 1
      else if in_range 0xC2 0xDF a then
        (case s of b # _ \<Rightarrow> if cont_byte b then 2 else 0 | _ \<Rightarrow> 0)
      else if in_range 0xE0 0xEF a then
        (case s of
           b # c # _ \<Rightarrow> if second_byte a b \<and> cont_byte c then 3 else 0
         | _ \<Rightarrow> 0)
      else if in_range 0xF0 0xF4 a then
        (case s of
           b # c # d # _ \<Rightarrow> if second_byte a b \<and> cont_byte c \<and> cont_byte d then 4 else 0
         | _ \<Rightarrow> 0)
      else 0)"

definition utf8_encode :: "int \<Rightarrow> string" where
  "utf8_encode r =
     (if r < 0x80 then [char_of r]
      else if r < 0x800 then [char_of (0xC0 + r div 64), char_of (0x80 + r mod 64)]
      else if r < 0x10000 then
        [char_of (0xE0 + r div 4096), char_of (0x80 + r div 64 mod 64), char_of (0x80 + r mod 64)]
      else
        [char_of (0xF0 + r div 262144), char_of (0x80 + r div 4096 mod 64),
         char_of (0x80 + r div 64 mod 64), char_of (0x80 + r mod 64)])"

definition ReplacementChar :: int where "ReplacementChar = 0xFFFD"

text \<open>\<^verbatim>\<open>getu4\<close>: the code unit of a \<^verbatim>\<open>\uXXXX\<close> escape at the head of the bytes, or -1.\<close>

fun getu4 :: "string \<Rightarrow> int" where
  "getu4 (b # u # h1 # h2 # h3 # h4 # s) =
     (if b = CHR 0x5C \<and> u = CHR ''u'' \<and> hex_digit h1 \<and> hex_digit h2 \<and> hex_digit h3 \<and> hex_digit h4
      then hex_value h1 * 4096 + hex_value h2 * 256 + hex_value h3 * 16 + hex_value h4
      else - 1)"
| "getu4 s = - 1"

definition unescape :: "char \<Rightarrow> char" where
  "unescape e =
     (if e = CHR ''b'' then CHR 0x08
      else if e = CHR ''f'' then CHR 0x0C
      else if e = CHR ''n'' then CHR 0x0A
      else if e = CHR ''r'' then CHR 0x0D
      else if e = CHR ''t'' then CHR 0x09
      else e)"

text \<open>
  \<^verbatim>\<open>unquote\<close> on the bytes of a literal the scanner has accepted: escapes are replaced, a
  surrogate escape is combined with a following low surrogate escape or becomes U+FFFD, and
  a byte that starts no valid UTF-8 encoding becomes U+FFFD.
\<close>

fun unquote :: "string \<Rightarrow> string" where
  "unquote [] = []"
| "unquote (c # cs) =
     (if c = CHR 0x5C then
        (case cs of
           [] \<Rightarrow> []
         | e # cs' \<Rightarrow>
             (if e = CHR ''u'' then
                (let rr = getu4 (c # cs); after = drop 4 cs' in
                 if 0xD800 \<le> rr \<and> rr < 0xE000 then
                   (let rr1 = getu4 after in
                    if rr < 0xDC00 \<and> 0xDC00 \<le> rr1 \<and> rr1 < 0xE000 then
                      utf8_encode ((rr - 0xD800) * 1024 + (rr1 - 0xDC00) + 0x10000) @ unquote (drop 6 after)
                    else utf8_encode ReplacementChar @ unquote after)
                 else utf8_encode rr @ unquote after)
              else unescape e # unquote cs'))
      else if byte c < 0x80 then c # unquote cs
      else (let n = utf8_width (c # cs) in
            if n = 0 then utf8_encode ReplacementChar @ unquote cs
            else c # take (n - 1) cs @ unquote (drop (n - 1) cs)))"

text \<open>
  A number literal, read byte by byte as the scanner does. The state says what has been
  read: a minus sign, a leading zero, digits of the integer part, the point, digits of the
  fraction, the exponent mark, its sign, digits of the exponent.
\<close>

datatype number_state = AfterMinus | After0 | InInt | AfterDot | InFrac | AfterE | AfterESign | InExp

fun number_step :: "number_state \<Rightarrow> char \<Rightarrow> number_state option" where
  "number_step AfterMinus c =
     (if c = CHR ''0'' then Some After0 else if is_digit c then Some InInt else None)"
| "number_step After0 c =
     (if c = CHR ''.'' then Some AfterDot else if c = CHR ''e'' \<or> c = CHR ''E'' then Some AfterE else None)"
| "number_step InInt c =
     (if is_digit c then Some InInt
      else if c = CHR ''.'' then Some AfterDot
      else if c = CHR ''e'' \<or> c = CHR ''E'' then Some AfterE else None)"
| "number_step AfterDot c = (if is_digit c then Some InFrac else None)"
| "number_step InFrac c =
     (if is_digit c then Some InFrac else if c = CHR ''e'' \<or> c = CHR ''E'' then Some AfterE else None)"
| "number_step AfterE c =
     (if c = CHR ''+'' \<or> c = CHR ''-'' then Some AfterESign else if is_digit c then Some InExp else None)"
| "number_step AfterESign c = (if is_digit c then Some InExp else None)"
| "number_step InExp c = (if is_digit c then Some InExp else None)"

fun number_end :: "number_state \<Rightarrow> bool" where
  "number_end After0 = True"
| "number_end InInt = True"
| "number_end InFrac = True"
| "number_end InExp = True"
| "number_end st = False"

fun scan_number :: "number_state \<Rightarrow> string \<Rightarrow> (string \<times> string) option" where
  "scan_number st [] = (if number_end st then Some ([], []) else None)"
| "scan_number st (c # cs) =
     (case number_step st c of
        Some st' \<Rightarrow>
          (case scan_number st' cs of None \<Rightarrow> None | Some (lit, rest) \<Rightarrow> Some (c # lit, rest))
      | None \<Rightarrow> if number_end st then Some ([], c # cs) else None)"

definition number_literal :: "string \<Rightarrow> (string \<times> string) option" where
  "number_literal s =
     (case s of
        [] \<Rightarrow> None
      | c # cs \<Rightarrow>
          (case (if c = CHR ''-'' then Some AfterMinus
                 else if c = CHR ''0'' then Some After0
                 else if is_digit c then Some InInt
                 else None) of
             None \<Rightarrow> None
           | Some st \<Rightarrow>
               (case scan_number st cs of None \<Rightarrow> None | Some (lit, rest) \<Rightarrow> Some (c # lit, rest))))"

definition maxNestingDepth :: nat where "maxNestingDepth = 10000"

text \<open>A value that is not an array or an object, at the head of the bytes.\<close>

definition parse_scalar :: "string \<Rightarrow> go_error + (json \<times> string)" where
  "parse_scalar s =
     (case s of
        [] \<Rightarrow> Inl SyntaxError
      | c # r \<Rightarrow>
          if c = CHR 0x22 then
            (case string_literal r of
               None \<Rightarrow> Inl SyntaxError
             | Some (lit, rest) \<Rightarrow> Inr (JString (unquote lit), rest))
          else if c = CHR ''-'' \<or> is_digit c then
            (case number_literal s of
               None \<Rightarrow> Inl SyntaxError
             | Some (lit, rest) \<Rightarrow> Inr (JNumber lit, rest))
          else if take 4 s = ''true'' then Inr (JBool True, drop 4 s)
          else if take 5 s = ''false'' then Inr (JBool False, drop 5 s)
          else if take 4 s = ''null'' then Inr (JNull, drop 4 s)
          else Inl SyntaxError)"

text \<open>
  The value at the head of the bytes and the bytes after it. The first argument bounds the
  number of nested calls and is set by \<open>Decode\<close> from the length of the input; the second is
  the number of arrays and objects that are open.
\<close>

fun parse_value :: "nat \<Rightarrow> nat \<Rightarrow> string \<Rightarrow> go_error + (json \<times> string)"
  and parse_elements :: "nat \<Rightarrow> nat \<Rightarrow> json list \<Rightarrow> string \<Rightarrow> go_error + (json \<times> string)"
  and parse_members :: "nat \<Rightarrow> nat \<Rightarrow> (string \<times> json) list \<Rightarrow> string \<Rightarrow> go_error + (json \<times> string)"
where
  "parse_value 0 depth s = Inl SyntaxError"
| "parse_value (Suc n) depth s =
     (case skip_space s of
        [] \<Rightarrow> Inl SyntaxError
      | c # r \<Rightarrow>
          if c = CHR ''{'' then
            (if maxNestingDepth \<le> depth then Inl SyntaxError
             else case skip_space r of
                    [] \<Rightarrow> Inl SyntaxError
                  | c' # r' \<Rightarrow>
                      if c' = CHR ''}'' then Inr (JObject [], r')
                      else parse_members n (Suc depth) [] r)
          else if c = CHR ''['' then
            (if maxNestingDepth \<le> depth then Inl SyntaxError
             else case skip_space r of
                    [] \<Rightarrow> Inl SyntaxError
                  | c' # r' \<Rightarrow>
                      if c' = CHR '']'' then Inr (JArray [], r')
                      else parse_elements n (Suc depth) [] r)
          else parse_scalar (c # r))"
| "parse_elements 0 depth acc s = Inl SyntaxError"
| "parse_elements (Suc n) depth acc s =
     (case parse_value n depth s of
        Inl e \<Rightarrow> Inl e
      | Inr (v, r) \<Rightarrow>
          (case skip_space r of
             [] \<Rightarrow> Inl SyntaxError
           | c # r' \<Rightarrow>
               if c = CHR '','' then parse_elements n depth (acc @ [v]) r'
               else if c = CHR '']'' then Inr (JArray (acc @ [v]), r')
               else Inl SyntaxError))"
| "parse_members 0 depth acc s = Inl SyntaxError"
| "parse_members (Suc n) depth acc s =
     (case skip_space s of
        [] \<Rightarrow> Inl SyntaxError
      | q # r \<Rightarrow>
          if q = CHR 0x22 then
            (case string_literal r of
               None \<Rightarrow> Inl SyntaxError
             | Some (lit, r1) \<Rightarrow>
                 (case skip_space r1 of
                    [] \<Rightarrow> Inl SyntaxError
                  | c # r2 \<Rightarrow>
                      if c = CHR '':'' then
                        (case parse_value n depth r2 of
                           Inl e \<Rightarrow> Inl e
                         | Inr (v, r3) \<Rightarrow>
                             (case skip_space r3 of
                                [] \<Rightarrow> Inl SyntaxError
                              | c' # r4 \<Rightarrow>
                                  if c' = CHR '','' then parse_members n depth (map_assign (unquote lit) v acc) r4
                                  else if c' = CHR ''}'' then Inr (JObject (map_assign (unquote lit) v acc), r4)
                                  else Inl SyntaxError))
                      else Inl SyntaxError))
          else Inl SyntaxError)"

text \<open>
  \<^verbatim>\<open>Decode\<close> reads the first value of the input; the second component is what the decoder
  has not read. \<^verbatim>\<open>More\<close> looks at the next byte that is not a space: it answers false at the
  end of the input and before a closing bracket or brace.
\<close>

definition Decode :: "string \<Rightarrow> go_error + (json \<times> string)" where
  "Decode raw = parse_value (Suc (2 * length raw)) 0 raw"

definition More :: "string \<Rightarrow> bool" where
  "More unread = (case skip_space unread of [] \<Rightarrow> False | c # _ \<Rightarrow> c \<noteq> CHR '']'' \<and> c \<noteq> CHR ''}'')"

subsection \<open>The canonical JSON encoder\<close>

text \<open>
  Modelled from the spec: \<^verbatim>\<open>canonicaljson.Marshal\<close> of the module
  \<^verbatim>\<open>github.com/gibson042/canonicaljson-go\<close>, which \<^verbatim>\<open>CanonicalizeJSONBody\<close> calls and whose
  code is not among the sources. The spec gives the canonical form as: object keys sorted
  by byte value, no insignificant white space, a single deterministic number
  representation, and string escaping rules that are fixed; re-serialising a parsed value
  does not fail. The number representation is the library parameter \<open>number_form\<close>. The
  escaping rules taken here are the short escapes for quote, backslash, backspace, form
  feed, line feed, carriage return and tab, \<^verbatim>\<open>\u00XX\<close> with upper-case digits for the other
  control bytes, and every other byte as it is.
\<close>

definition hex_upper :: "int \<Rightarrow> char" where
  "hex_upper d = (if d < 10 then char_of (48 + d) else char_of (55 + d))"

definition escape_byte :: "char \<Rightarrow> string" where
  "escape_byte c =
     (if c = CHR 0x22 then [CHR 0x5C, CHR 0x22]
      else if c = CHR 0x5C then [CHR 0x5C, CHR 0x5C]
      else if c = CHR 0x08 then [CHR 0x5C, CHR ''b'']
      else if c = CHR 0x0C then [CHR 0x5C, CHR ''f'']
      else if c = CHR 0x0A then [CHR 0x5C, CHR ''n'']
      else if c = CHR 0x0D then [CHR 0x5C, CHR ''r'']
      else if c = CHR 0x09 then [CHR 0x5C, CHR ''t'']
      else if byte c < 0x20 then
        [CHR 0x5C, CHR ''u'', CHR ''0'', CHR ''0'', hex_upper (byte c div 16), hex_upper (byte c mod 16)]
      else [c])"

definition quote :: "string \<Rightarrow> string" where
  "quote s = CHR 0x22 # concat (map escape_byte s) @ [CHR 0x22]"

fun separated :: "string list \<Rightarrow> string" where
  "separated [] = []"
| "separated [t] = t"
| "separated (t # ts) = t @ CHR '','' # separated ts"

definition member_text :: "string \<times> string \<Rightarrow> string" where
  "member_text kt = quote (fst kt) @ CHR '':'' # snd kt"

fun canonical_json :: "(string \<Rightarrow> string) \<Rightarrow> json \<Rightarrow> string" where
  "canonical_json nf JNull = ''null''"
| "canonical_json nf (JBool b) = (if b then ''true'' else ''false'')"
| "canonical_json nf (JNumber lit) = nf lit"
| "canonical_json nf (JString s) = quote s"
| "canonical_json nf (JArray vs) = CHR ''['' # separated (map (canonical_json nf) vs) @ '']''"
| "canonical_json nf (JObject kvs) =
     CHR ''{'' #
     separated (map member_text
       (foldl (\<lambda>m kt. map_assign (fst kt) (snd kt) m) []
          (map (\<lambda>kv. (fst kv, canonical_json nf (snd kv))) kvs))) @ ''}''"

subsection \<open>checkout_webhook.go: event payloads\<close>

type_synonym WebhookEventType = string
type_synonym EventDataType = string
type_synonym OrderStatus = string
type_synonym RefundType = string

definition WebhookEventTypeOrderCreated :: WebhookEventType where
  "WebhookEventTypeOrderCreated = ''order_created''"
definition WebhookEventTypeOrderUpdated :: WebhookEventType where
  "WebhookEventTypeOrderUpdated = ''order_updated''"

record Refund =
  refundType :: RefundType
  Amount :: int

record Order =
  orderType :: EventDataType
  CheckoutSessionID :: string
  PermalinkURL :: string
  Status :: OrderStatus
  Refunds :: "Refund list"

datatype EventData = OrderCreate Order | OrderUpdated Order

fun eventType :: "EventData \<Rightarrow> WebhookEventType" where
  "eventType (OrderCreate _) = WebhookEventTypeOrderCreated"
| "eventType (OrderUpdated _) = WebhookEventTypeOrderUpdated"

record webhookEvent =
  eventTypeTag :: WebhookEventType
  Data :: EventData

subsection \<open>Outbound HTTP\<close>

record OutRequest =
  outMethod :: string
  outURL :: string
  outHeader :: Header
  outBody :: string

record HTTPResponse =
  StatusCode :: int
  StatusText :: string
  ResponseBody :: string

text \<open>What \<^verbatim>\<open>(*http.Client).Do\<close> answers to a request: a transport error or a response.\<close>

type_synonym Client = "OutRequest \<Rightarrow> go_error + HTTPResponse"

subsection \<open>Library functions and constants taken as parameters\<close>

record Lib =
  APIVersion :: string
  hmac_sha256 :: "string \<Rightarrow> string \<Rightarrow> string"
  time_Parse :: "string \<Rightarrow> string \<Rightarrow> go_error + Time"
  time_Format :: "Time \<Rightarrow> string \<Rightarrow> string"
  time_Now :: Time
  Duration_String :: "Duration \<Rightarrow> string"
  number_form :: "string \<Rightarrow> string"
  json_Marshal :: "webhookEvent \<Rightarrow> go_error + string"
  url_Parse :: "string \<Rightarrow> go_error option"
  http_DefaultClient :: Client

subsection \<open>Package signature\<close>

definition canonicaljson_Marshal :: "Lib \<Rightarrow> json \<Rightarrow> go_error + string" where
  "canonicaljson_Marshal lib v = Inr (canonical_json (number_form lib) v)"

record Material =
  Signature :: string
  Timestamp :: Time
  CanonicalBody :: string
  Method :: string
  Path :: string
  RawQuery :: string
  Headers :: Header

text \<open>A \<^verbatim>\<open>Verifier\<close> answers nil (\<open>None\<close>) or an error.\<close>

type_synonym Verifier = "Material \<Rightarrow> go_error option"

definition BuildSigningPayload :: "Lib \<Rightarrow> Time \<Rightarrow> string \<Rightarrow> string" where
  "BuildSigningPayload lib ts canonicalBody =
     time_Format lib (UTC ts) RFC3339Nano @ [CHR ''.''] @ canonicalBody"

text \<open>\<^verbatim>\<open>hmac.Equal\<close> answers whether the two MACs have the same length and bytes.\<close>

definition hmac_Equal :: "string \<Rightarrow> string \<Rightarrow> bool" where
  "hmac_Equal mac1 mac2 = (mac1 = mac2)"

definition HMACVerifier_Verify :: "Lib \<Rightarrow> string \<Rightarrow> Verifier" where
  "HMACVerifier_Verify lib Key material =
     (if length Key = 0 then
        Some (errorString ''signature: HMACSignatureVerifier requires a non-empty key'')
      else
        let signingInput = BuildSigningPayload lib (Timestamp material) (CanonicalBody material);
            expected = hmac_sha256 lib Key signingInput
        in case DecodeString (Signature material) of
             Inl err \<Rightarrow> Some (wrapError ''signature: decode signature: '' err)
           | Inr decoded \<Rightarrow>
               if \<not> hmac_Equal decoded expected then Some (errorString ''signature: invalid signature'')
               else None)"

datatype body = NilBody | Reader string | FailingReader go_error

record Request =
  reqMethod :: string
  reqPath :: string
  reqRawQuery :: string
  reqHeader :: Header
  reqBody :: body

definition ReadAndBufferBody :: "Request \<Rightarrow> Request \<times> (go_error + string)" where
  "ReadAndBufferBody r =
     (case reqBody r of
        NilBody \<Rightarrow> (r\<lparr>reqBody := Reader []\<rparr>, Inr [])
      | Reader raw \<Rightarrow> (r\<lparr>reqBody := Reader raw\<rparr>, Inr raw)
      | FailingReader err \<Rightarrow> (r, Inl err))"

definition CanonicalizeJSONBody :: "Lib \<Rightarrow> string \<Rightarrow> go_error + string" where
  "CanonicalizeJSONBody lib raw =
     (if length (TrimSpace raw) = 0 then Inr ''null''
      else case Decode raw of
             Inl err \<Rightarrow> Inl err
           | Inr (payload, unread) \<Rightarrow>
               if More unread then Inl (errorString ''signature: multiple JSON documents in body'')
               else canonicaljson_Marshal lib payload)"

definition ParseTimestamp :: "Lib \<Rightarrow> string \<Rightarrow> go_error + Time" where
  "ParseTimestamp lib v =
     (if v = [] then Inl (errorString ''signature: empty timestamp'')
      else case time_Parse lib RFC3339Nano v of
             Inr ts \<Rightarrow> Inr ts
           | Inl _ \<Rightarrow> time_Parse lib RFC3339 v)"

definition AbsDuration :: "Duration \<Rightarrow> Duration" where
  "AbsDuration d = (if d <s 0 then - d else d)"

subsection \<open>Handlers and middleware\<close>

text \<open>
  A handler in a middleware chain either writes a response (or panics in
  \<^verbatim>\<open>WriteHeader\<close> while doing so) or calls the next handler with the request. The model of a middleware is its own step: what it did (whether it read the
  body, which verifier and authenticator calls it made) and how it ended. The first
  argument of a step is the header map of the response writer it was given.
\<close>

datatype event = ReadBody | Verify Material | Authenticate string

datatype outcome = Respond "panic + Response" | Next Request

type_synonym Middleware = "Header \<Rightarrow> Request \<Rightarrow> event list \<times> outcome"

type_synonym HandlerFunc = "Header \<Rightarrow> Request \<Rightarrow> event list \<times> (panic + Response)"

definition wrap :: "Middleware \<Rightarrow> HandlerFunc \<Rightarrow> HandlerFunc" where
  "wrap m next_handler w r =
     (case m w r of
        (evs, Respond resp) \<Rightarrow> (evs, resp)
      | (evs, Next r') \<Rightarrow> (case next_handler w r' of (evs', resp) \<Rightarrow> (evs @ evs', resp)))"

fun applyMiddleware :: "HandlerFunc \<Rightarrow> Middleware list \<Rightarrow> HandlerFunc" where
  "applyMiddleware h [] = h"
| "applyMiddleware h (m # ms) = applyMiddleware (wrap m h) ms"

subsection \<open>The signature middleware\<close>

record signatureMiddlewareConfig =
  Verifier :: "Verifier option"
  RequireSigned :: bool
  MaxClockSkew :: Duration
  Clock :: "Time option"

definition signatureHandler :: "Lib \<Rightarrow> signatureMiddlewareConfig \<Rightarrow> Middleware" where
  "signatureHandler lib cfg w r =
     (case Verifier cfg of
        None \<Rightarrow> ([], Next r)
      | Some verifier \<Rightarrow>
          (let sig = TrimSpace (Header_Get (reqHeader r) ''Signature'');
               timestampHeader = TrimSpace (Header_Get (reqHeader r) ''Timestamp'')
           in
           if sig = [] \<and> timestampHeader = [] then
             (if RequireSigned cfg then
                ([], Respond (writeJSONError (APIVersion lib) w
                       (Some (NewHTTPError StatusUnauthorized InvalidRequest SignatureRequired
                                ''Signature and Timestamp headers are required'' []))))
              else ([], Next r))
           else if sig = [] \<or> timestampHeader = [] then
             ([], Respond (writeJSONError (APIVersion lib) w
                    (Some (NewHTTPError StatusBadRequest InvalidRequest InvalidSignature
                             ''Signature and Timestamp headers must both be provided'' []))))
           else
             (case ParseTimestamp lib timestampHeader of
                Inl err \<Rightarrow>
                  ([], Respond (writeJSONError (APIVersion lib) w
                         (Some (NewHTTPError StatusBadRequest InvalidRequest InvalidSignature
                                  ''Timestamp must be RFC3339'' []))))
              | Inr parsed \<Rightarrow>
                  (let ts = UTC parsed in
                   if 0 <s MaxClockSkew cfg \<and>
                      MaxClockSkew cfg <s
                        AbsDuration (Sub (case Clock cfg of Some now \<Rightarrow> now | None \<Rightarrow> time_Now lib) ts)
                   then
                     ([], Respond (writeJSONError (APIVersion lib) w
                            (Some (NewHTTPError StatusUnauthorized InvalidRequest StaleTimestamp
                                     (''timestamp skew exceeds '' @ Duration_String lib (MaxClockSkew cfg)) []))))
                   else
                     (case ReadAndBufferBody r of
                        (r', Inl err) \<Rightarrow>
                          ([ReadBody], Respond (writeJSONError (APIVersion lib) w
                                         (Some (NewInvalidRequestError ''unable to read request body'' []))))
                      | (r', Inr raw) \<Rightarrow>
                          (case CanonicalizeJSONBody lib raw of
                             Inl err \<Rightarrow>
                               ([ReadBody], Respond (writeJSONError (APIVersion lib) w
                                              (Some (NewInvalidRequestError ''request body must be valid JSON'' []))))
                           | Inr canonicalBody \<Rightarrow>
                               (let material =
                                      \<lparr>Signature = sig, Timestamp = ts, CanonicalBody = canonicalBody,
                                       Method = reqMethod r', Path = reqPath r', RawQuery = reqRawQuery r',
                                       Headers = reqHeader r'\<rparr>
                                in (case verifier material of
                                      Some err \<Rightarrow>
                                        ([ReadBody, Verify material],
                                         Respond (writeJSONError (APIVersion lib) w
                                           (Some (NewHTTPError StatusUnauthorized InvalidRequest InvalidSignature
                                                    ''signature verification failed'' []))))
                                    | None \<Rightarrow> ([ReadBody, Verify material], Next r')))))))))"

text \<open>No middleware is built when there is no verifier; a nil clock becomes \<^verbatim>\<open>time.Now\<close>.\<close>

definition newSignatureMiddleware :: "Lib \<Rightarrow> signatureMiddlewareConfig \<Rightarrow> Middleware option" where
  "newSignatureMiddleware lib cfg =
     (if Verifier cfg = None then None
      else Some (signatureHandler lib
                   (if Clock cfg = None then cfg\<lparr>Clock := Some (time_Now lib)\<rparr> else cfg)))"

subsection \<open>Handler configuration\<close>

text \<open>An \<^verbatim>\<open>Authenticator\<close> answers nil or an error for an API key.\<close>

type_synonym Authenticator = "string \<Rightarrow> go_error option"

record webhookConfig =
  endpoint :: string
  header :: string
  secret :: string
  client :: Client

record config =
  signatureVerifier :: "Verifier option"
  maxClockSkew :: Duration
  requireSignedRequests :: bool
  middleware :: "Middleware list"
  authenticator :: "Authenticator option"
  clock :: "Time option"
  webhook :: "webhookConfig option"

text \<open>
  An \<^verbatim>\<open>Option\<close> changes the configuration; \<open>None\<close> is a nil option, which the constructors
  skip. A constructor of options that panics answers \<open>Inl\<close> with the panic's message.
\<close>

type_synonym Option = "(config \<Rightarrow> config) option"

definition WithSignatureVerifier :: "Verifier option \<Rightarrow> Option" where
  "WithSignatureVerifier verifier = Some (\<lambda>cfg. cfg\<lparr>signatureVerifier := verifier\<rparr>)"

definition WithMaxClockSkew :: "Duration \<Rightarrow> string + Option" where
  "WithMaxClockSkew skew =
     (if skew \<le>s 0 then Inl ''checkout: max clock skew must be positive''
      else Inr (Some (\<lambda>cfg. cfg\<lparr>maxClockSkew := skew\<rparr>)))"

definition WithRequireSignedRequests :: Option where
  "WithRequireSignedRequests = Some (\<lambda>cfg. cfg\<lparr>requireSignedRequests := True\<rparr>)"

definition WithMiddleware :: "Middleware option list \<Rightarrow> Option" where
  "WithMiddleware mw = Some (\<lambda>cfg. cfg\<lparr>middleware := middleware cfg @ List.map_filter id mw\<rparr>)"

definition WithAuthenticator :: "Authenticator option \<Rightarrow> Option" where
  "WithAuthenticator auth = Some (\<lambda>cfg. cfg\<lparr>authenticator := auth\<rparr>)"

definition checkoutWithClock :: "Time option \<Rightarrow> Option" where
  "checkoutWithClock fn = Some (\<lambda>cfg. cfg\<lparr>clock := fn\<rparr>)"

record WebhookOptions =
  Endpoint :: string
  HeaderName :: string
  SecretKey :: string
  HTTPClient :: "Client option"

definition WithWebhookOptions :: "Lib \<Rightarrow> WebhookOptions \<Rightarrow> string + Option" where
  "WithWebhookOptions lib opts =
     (if TrimSpace (Endpoint opts) = [] then Inl ''checkout: webhook endpoint is required''
      else if TrimSpace (HeaderName opts) = [] then Inl ''checkout: webhook header name is required''
      else if length (SecretKey opts) = 0 then Inl ''checkout: webhook secret key is required''
      else Inr (Some (\<lambda>cfg. cfg\<lparr>webhook := Some
                  \<lparr>endpoint = TrimSpace (Endpoint opts), header = TrimSpace (HeaderName opts),
                   secret = SecretKey opts,
                   client = (case HTTPClient opts of None \<Rightarrow> http_DefaultClient lib | Some c \<Rightarrow> c)\<rparr>\<rparr>)))"

fun apply_options :: "config \<Rightarrow> Option list \<Rightarrow> config" where
  "apply_options cfg [] = cfg"
| "apply_options cfg (None # opts) = apply_options cfg opts"
| "apply_options cfg (Some opt # opts) = apply_options (opt cfg) opts"

definition default_config :: "Lib \<Rightarrow> config" where
  "default_config lib =
     \<lparr>signatureVerifier = None, maxClockSkew = 5 * Minute, requireSignedRequests = False,
      middleware = [], authenticator = None, clock = Some (time_Now lib), webhook = None\<rparr>"

definition signature_config :: "config \<Rightarrow> signatureMiddlewareConfig" where
  "signature_config cfg =
     \<lparr>Verifier = signatureVerifier cfg, RequireSigned = requireSignedRequests cfg,
      MaxClockSkew = maxClockSkew cfg, Clock = clock cfg\<rparr>"

subsection \<open>checkout.go: NewCheckoutHandler\<close>

text \<open>
  The handler as built: its provider (\<open>None\<close> is a nil interface), its configuration, and
  the middleware its routes were registered with. \<open>Inl\<close> is a panic.
\<close>

record 'p CheckoutHandler =
  checkoutService :: "'p option"
  checkoutCfg :: config
  checkoutMiddleware :: "Middleware list"

definition NewCheckoutHandler :: "Lib \<Rightarrow> 'p option \<Rightarrow> Option list \<Rightarrow> string + 'p CheckoutHandler" where
  "NewCheckoutHandler lib service opts =
     (let cfg = apply_options (default_config lib) opts in
      if requireSignedRequests cfg \<and> signatureVerifier cfg = None then
        Inl ''checkout: signature verifier required when signed requests are enforced''
      else
        Inr \<lparr>checkoutService = service, checkoutCfg = cfg,
             checkoutMiddleware =
               (case newSignatureMiddleware lib (signature_config cfg) of
                  Some mw \<Rightarrow> [mw]
                | None \<Rightarrow> [])\<rparr>)"

subsection \<open>The authentication middleware and NewDelegatedPaymentHandler\<close>

text \<open>\<^verbatim>\<open>strings.Cut\<close> at the first space.\<close>

definition Cut_space :: "string \<Rightarrow> string \<times> string \<times> bool" where
  "Cut_space s =
     (if CHR 0x20 \<in> set s
      then (takeWhile (\<lambda>c. c \<noteq> CHR 0x20) s, drop 1 (dropWhile (\<lambda>c. c \<noteq> CHR 0x20) s), True)
      else (s, [], False))"

text \<open>
  \<^verbatim>\<open>strings.EqualFold\<close> against a word of ASCII letters other than k and s, for which
  Unicode case folding is the folding of ASCII letters.
\<close>

definition EqualFold :: "string \<Rightarrow> string \<Rightarrow> bool" where
  "EqualFold s t = (map to_lower s = map to_lower t)"

definition authenticationMiddleware :: "Lib \<Rightarrow> config \<Rightarrow> Middleware" where
  "authenticationMiddleware lib cfg w r =
     (case authenticator cfg of
        None \<Rightarrow> ([], Next r)
      | Some auth \<Rightarrow>
          (let authHeader = TrimSpace (Header_Get (reqHeader r) ''Authorization'') in
           if authHeader = [] then
             ([], Respond (writeJSONError (APIVersion lib) w
                    (Some (NewHTTPError StatusUnauthorized InvalidRequest MissingAuthorization
                             ''Authorization header is required'' []))))
           else
             (case Cut_space authHeader of
                (schema, apiKey, ok) \<Rightarrow>
                  (if \<not> ok \<or> \<not> EqualFold schema ''Bearer'' then
                     ([], Respond (writeJSONError (APIVersion lib) w
                            (Some (NewHTTPError StatusUnauthorized InvalidRequest InvalidAuthorization
                                     (''Authorization header must be in the format '' @ [CHR 0x27] @
                                      ''Bearer <api_key>'' @ [CHR 0x27]) []))))
                   else if apiKey = [] then
                     ([], Respond (writeJSONError (APIVersion lib) w
                            (Some (NewHTTPError StatusUnauthorized InvalidRequest InvalidAuthorization
                                     ''API key is required'' []))))
                   else
                     (case auth apiKey of
                        Some err \<Rightarrow>
                          (case errors_As err of
                             Some httpErr \<Rightarrow>
                               ([Authenticate apiKey], Respond (writeJSONError (APIVersion lib) w httpErr))
                           | None \<Rightarrow>
                               ([Authenticate apiKey],
                                Respond (writeJSONError (APIVersion lib) w
                                  (Some (NewHTTPError StatusUnauthorized InvalidRequest InvalidAuthorization
                                           ''invalid API key'' [])))))
                      | None \<Rightarrow> ([Authenticate apiKey], Next r))))))"

record 'p DelegatedPaymentHandler =
  delegatedService :: "'p option"
  delegatedCfg :: config
  delegatedMiddleware :: "Middleware list"

definition NewDelegatedPaymentHandler ::
  "Lib \<Rightarrow> 'p option \<Rightarrow> Option list \<Rightarrow> string + 'p DelegatedPaymentHandler" where
  "NewDelegatedPaymentHandler lib service opts =
     (if service = None then Inl ''delegatedpayment: service is required''
      else
        let cfg = apply_options (default_config lib) opts in
        if requireSignedRequests cfg \<and> signatureVerifier cfg = None then
          Inl ''delegatedpayment: signature verifier required when signed requests are enforced''
        else
          Inr \<lparr>delegatedService = service, delegatedCfg = cfg,
               delegatedMiddleware =
                 (case newSignatureMiddleware lib (signature_config cfg) of
                    Some mw \<Rightarrow> [mw]
                  | None \<Rightarrow> []) @
                 (if authenticator cfg \<noteq> None then [authenticationMiddleware lib cfg] else []) @
                 middleware cfg\<rparr>)"

subsection \<open>checkout_webhook.go: SendWebhook\<close>

definition signWebhookPayload :: "Lib \<Rightarrow> string \<Rightarrow> string \<Rightarrow> string" where
  "signWebhookPayload lib secret_key body_bytes = EncodeToString (hmac_sha256 lib secret_key body_bytes)"

definition StatusOK :: int where "StatusOK = 200"
definition StatusMultipleChoices :: int where "StatusMultipleChoices = 300"

text \<open>
  The result is the list of requests handed to the HTTP client, in order, and the error
  returned (\<open>None\<close> is nil).
\<close>

definition SendWebhook :: "Lib \<Rightarrow> 'p CheckoutHandler \<Rightarrow> EventData \<Rightarrow> OutRequest list \<times> go_error option" where
  "SendWebhook lib h data =
     (case webhook (checkoutCfg h) of
        None \<Rightarrow> ([], Some (errorString ''checkout: webhook options must be configured''))
      | Some wh \<Rightarrow>
          (case json_Marshal lib \<lparr>eventTypeTag = eventType data, Data = data\<rparr> of
             Inl err \<Rightarrow> ([], Some (wrapError ''checkout: marshal webhook payload: '' err))
           | Inr body_bytes \<Rightarrow>
               (case url_Parse lib (endpoint wh) of
                  Some err \<Rightarrow> ([], Some (wrapError ''checkout: build webhook request: '' err))
                | None \<Rightarrow>
                    (let hd0 = Header_Set Map.empty ''Content-Type'' ''application/json'';
                         hd1 = Header_Set hd0 ''API-Version'' (APIVersion lib);
                         hd2 = Header_Set hd1 (header wh) (signWebhookPayload lib (secret wh) body_bytes);
                         req = \<lparr>outMethod = ''POST'', outURL = endpoint wh, outHeader = hd2, outBody = body_bytes\<rparr>
                     in (case client wh req of
                           Inl err \<Rightarrow> ([req], Some (wrapError ''checkout: send webhook: '' err))
                         | Inr resp \<Rightarrow>
                             (if StatusCode resp < StatusOK \<or> StatusMultipleChoices \<le> StatusCode resp then
                                ([req], Some (errorString
                                   (''checkout: webhook endpoint '' @ endpoint wh @ '' returned '' @ StatusText resp @
                                    '': '' @ TrimSpace (take 4096 (ResponseBody resp)))))
                              else ([req], None)))))))"

subsection \<open>Canonical texts and the values behind them\<close>

text \<open>
  The notions in which the stability of the canonical form is stated and proved: which
  values the decoder can produce, which texts the scanner accepts as literals, and what the
  decoder reads back from a canonical text.
\<close>

text \<open>A number literal: the scanner reads all of it and nothing else.\<close>

definition valid_number :: "string \<Rightarrow> bool" where
  "valid_number lit = (number_literal lit = Some (lit, []))"

text \<open>
  What may follow a number inside a canonical text: nothing, a comma or a closing
  bracket or brace.
\<close>

definition number_stop :: "string \<Rightarrow> bool" where
  "number_stop rest = (case rest of [] \<Rightarrow> True | c # _ \<Rightarrow> c \<in> set '',]}'')"



text \<open>
  Well-formed UTF-8: the bytes split into encodings that \<open>utf8_width\<close>
  accepts.
\<close>

fun valid_utf8 :: "string \<Rightarrow> bool" where
  "valid_utf8 [] = True"
| "valid_utf8 (c # cs) = (utf8_width (c # cs) \<noteq> 0 \<and> valid_utf8 (drop (utf8_width (c # cs) - 1) cs))"








text \<open>
  The text of an object whose members are written in the order given, without white
  space; the member values are written by the canonical encoder with the number
  representation \<open>nf\<close>.
\<close>

definition object_text :: "(string \<Rightarrow> string) \<Rightarrow> (string \<times> json) list \<Rightarrow> string" where
  "object_text nf kvs =
     CHR ''{'' # separated (map (\<lambda>kv. member_text (fst kv, canonical_json nf (snd kv))) kvs) @ ''}''"




text \<open>The number representation leaves its own output unchanged.\<close>

definition settles_numbers :: "(string \<Rightarrow> string) \<Rightarrow> bool" where
  "settles_numbers nf = (\<forall>lit. valid_number lit \<longrightarrow> nf (nf lit) = nf lit)"

subsection \<open>Example values\<close>

text \<open>
  A library instance and requests on which the functions above are evaluated: a clock that
  reads noon of 1 January 2025, the parse and format results of the timestamps used, an
  HMAC stand-in that concatenates key and message, and the canonical encodings of a few
  payloads.
\<close>

definition noon :: Time where
  "noon = \<lparr>unixNano = 1735732800000000000, zoneOffset = 0\<rparr>"

definition fixture_lib :: Lib where
  "fixture_lib =
     \<lparr>APIVersion = ''2025-09-29'',
      hmac_sha256 = (\<lambda>key msg. key @ msg),
      time_Parse = (\<lambda>layout v.
         if v = ''2025-01-01T12:00:00Z'' then Inr noon
         else if v = ''2025-01-01T11:59:01Z'' then Inr \<lparr>unixNano = 1735732741000000000, zoneOffset = 0\<rparr>
         else if v = ''2025-01-01T11:58:59Z'' then Inr \<lparr>unixNano = 1735732739000000000, zoneOffset = 0\<rparr>
         else if v = ''2400-01-01T00:00:00Z'' then Inr \<lparr>unixNano = 13569465600000000000, zoneOffset = 0\<rparr>
         else Inl (errorString ''parsing time'')),
      time_Format = (\<lambda>t layout. if unixNano t = 1735732800000000000 then ''2025-01-01T12:00:00Z'' else ''other''),
      time_Now = noon,
      Duration_String = (\<lambda>d. if d = Minute then ''1m0s'' else ''5m0s''),
      number_form = (\<lambda>lit. lit),
      json_Marshal = (\<lambda>ev. Inr ''{}''),
      url_Parse = (\<lambda>u. None),
      http_DefaultClient = (\<lambda>req. Inr \<lparr>StatusCode = 202, StatusText = ''202 Accepted'', ResponseBody = []\<rparr>)\<rparr>"

definition fixture_request :: "(string \<times> string) list \<Rightarrow> body \<Rightarrow> Request" where
  "fixture_request hs b =
     \<lparr>reqMethod = ''POST'', reqPath = ''/checkout_sessions'', reqRawQuery = [],
      reqHeader = foldl (\<lambda>h (k, v). Header_Set h k v) Map.empty hs, reqBody = b\<rparr>"

definition fixture_config :: "bool \<Rightarrow> Duration \<Rightarrow> signatureMiddlewareConfig" where
  "fixture_config required skew =
     \<lparr>Verifier = Some (HMACVerifier_Verify fixture_lib ''secret''), RequireSigned = required,
      MaxClockSkew = skew, Clock = Some noon\<rparr>"

definition far_future_request :: Request where
  "far_future_request =
     fixture_request [(''Signature'', ''c2VjcmV0b3RoZXIue30''), (''Timestamp'', ''2400-01-01T00:00:00Z'')]
       (Reader ''{}'')"


definition auth_down :: Error where
  "auth_down = NewHTTPError StatusServiceUnavailable ServiceUnavailable ServiceUnavailable
                 ''auth service unavailable'' []"


definition webhook_handler :: "Client \<Rightarrow> unit CheckoutHandler" where
  "webhook_handler c =
     \<lparr>checkoutService = Some (),
      checkoutCfg = (default_config fixture_lib)\<lparr>webhook := Some
         \<lparr>endpoint = ''https://merchant.example/hook'', header = ''Merchant_Name-Signature'',
          secret = ''super-secret'', client = c\<rparr>\<rparr>,
      checkoutMiddleware = []\<rparr>"

definition order_created :: EventData where
  "order_created = OrderCreate
     \<lparr>orderType = ''order'', CheckoutSessionID = ''cs_123'',
      PermalinkURL = ''https://merchant.example/orders/cs_123'', Status = ''created'', Refunds = []\<rparr>"

definition unsigned_request :: Request where
  "unsigned_request = fixture_request [(''Content-Type'', ''application/json'')] (Reader ''{}'')"

definition signature_required_response :: "Lib \<Rightarrow> Header \<Rightarrow> panic + Response" where
  "signature_required_response lib w =
     writeJSONError (APIVersion lib) w
       (Some (NewHTTPError StatusUnauthorized InvalidRequest SignatureRequired
                ''Signature and Timestamp headers are required'' []))"

definition enforcing_options :: "Option list" where
  "enforcing_options =
     [WithSignatureVerifier (Some (HMACVerifier_Verify fixture_lib ''secret'')), WithRequireSignedRequests]"

fun space_rune :: "string \<Rightarrow> bool" where
  "space_rune [a] = ascii_space a"
| "space_rune [a, b] = space2 a b"
| "space_rune [a, b, c] = space3 a b c"
| "space_rune w = False"

section \<open>Properties\<close>

subsection \<open>Seconds of a retry duration\<close>

lemma sint_Second: "sint Second = 1000000000" by (simp add: Second_def)

lemma sint_word_of_int_small:
  "- (2^63) \<le> k \<Longrightarrow> k < 2^63 \<Longrightarrow> sint (word_of_int k :: 64 word) = k"
  by (simp add: sint_sbintrunc' signed_take_bit_int_eq_self)

lemma word_of_int_eq_0_small:
  "0 \<le> k \<Longrightarrow> k < 2^64 \<Longrightarrow> (word_of_int k :: 64 word) = 0 \<longleftrightarrow> k = 0"
  by (auto simp: word_of_int_eq_0_iff dest: zdvd_imp_le)

lemma pos_sdiv: "0 < a \<Longrightarrow> 0 < b \<Longrightarrow> (a::int) sdiv b = a div b"
  by (simp add: signed_divide_int_def)

lemma pos_smod: "0 < a \<Longrightarrow> 0 < b \<Longrightarrow> (a::int) smod b = a mod b"
  by (simp add: signed_modulo_int_def)

lemma retryAfterSeconds_sint:
  "sint (retryAfterSeconds d) = (if 0 < sint d then \<lceil>real_of_int (sint d) / 1000000000\<rceil> else 0)"
proof (cases "0 < sint d")
  case False
  then have "d \<le>s 0" by (simp add: word_sle_eq)
  then show ?thesis using False by (simp add: retryAfterSeconds_def)
next
  case True
  define k where "k = sint d"
  define q where "q = k div 1000000000"
  define r where "r = k mod 1000000000"
  have kpos: "0 < k" using True by (simp add: k_def)
  have klt: "k < 2^63" using sint_lt [of d] by (simp add: k_def)
  have q0: "0 \<le> q" using kpos by (simp add: q_def)
  have qlt: "q < 9223372037" using klt by (simp add: q_def)
  have r0: "0 \<le> r" "r < 1000000000" by (simp_all add: r_def)
  have nle: "\<not> d \<le>s 0" using True by (simp add: word_sle_eq)
  have gd: "go_div d Second = word_of_int q"
    using kpos by (simp add: go_div_def sint_Second pos_sdiv q_def k_def)
  have gm: "go_mod d Second = word_of_int r"
    using kpos by (simp add: go_mod_def sint_Second pos_smod r_def k_def)
  have gm0: "(word_of_int r :: 64 word) = 0 \<longleftrightarrow> r = 0"
    using r0 by (intro word_of_int_eq_0_small) simp_all
  have sq: "sint (word_of_int q :: 64 word) = q"
    using q0 qlt by (intro sint_word_of_int_small) simp_all
  have sq1: "sint (word_of_int q + 1 :: 64 word) = q + 1"
  proof -
    have "(word_of_int q + 1 :: 64 word) = word_of_int (q + 1)" by simp
    moreover have "sint (word_of_int (q + 1) :: 64 word) = q + 1"
      using q0 qlt by (intro sint_word_of_int_small) simp_all
    ultimately show ?thesis by simp
  qed
  have keq: "k = q * 1000000000 + r" by (simp add: q_def r_def)
  have ceil: "\<lceil>real_of_int k / 1000000000\<rceil> = (if r = 0 then q else q + 1)"
  proof -
    have "\<lceil>real_of_int k / real_of_int 1000000000\<rceil> = - (- k div 1000000000)"
      by (rule ceiling_divide_eq_div)
    moreover have "- (- k div 1000000000) = (if r = 0 then q else q + 1)"
      using r0 by (simp add: q_def r_def zdiv_zminus1_eq_if)
    ultimately show ?thesis by simp
  qed
  show ?thesis
  proof (cases "r = 0")
    case True
    then have "0 < q" using keq kpos by simp
    then have "\<not> (word_of_int q :: 64 word) \<le>s 0" by (simp add: word_sle_eq sq)
    then show ?thesis
      using nle gd gm gm0 True ceil kpos sq
      by (simp add: retryAfterSeconds_def Let_def k_def)
  next
    case False
    have "\<not> (word_of_int q + 1 :: 64 word) \<le>s 0" using q0 by (simp add: word_sle_eq sq1)
    then show ?thesis
      using nle gd gm gm0 False ceil kpos sq1
      by (simp add: retryAfterSeconds_def Let_def k_def)
  qed
qed



lemma canonical_Content_Type: "CanonicalMIMEHeaderKey ''Content-Type'' = ''Content-Type''"
  by code_simp
lemma canonical_API_Version: "CanonicalMIMEHeaderKey ''API-Version'' = ''Api-Version''"
  by code_simp
lemma canonical_Retry_After: "CanonicalMIMEHeaderKey ''Retry-After'' = ''Retry-After''"
  by code_simp

lemma ceiling_billionth_pos: "0 < \<lceil>real_of_int k / 1000000000\<rceil> \<longleftrightarrow> 0 < k"
  by simp

lemma retryAfterSeconds_pos: "0 <s retryAfterSeconds d \<longleftrightarrow> 0 < sint d"
proof -
  have "0 <s retryAfterSeconds d \<longleftrightarrow> 0 < sint (retryAfterSeconds d)"
    by (simp add: word_sless_alt)
  also have "\<dots> \<longleftrightarrow> 0 < sint d"
  proof (cases "0 < sint d")
    case True
    then show ?thesis by (simp only: retryAfterSeconds_sint if_True ceiling_billionth_pos)
  next
    case False
    then show ?thesis by (simp only: retryAfterSeconds_sint if_False less_irrefl)
  qed
  finally show ?thesis .
qed

lemma retryAfterSeconds_ceiling:
  assumes "0 < sint d"
  shows "retryAfterSeconds d = word_of_int \<lceil>real_of_int (sint d) / 1000000000\<rceil>"
proof -
  have "sint (retryAfterSeconds d) = \<lceil>real_of_int (sint d) / 1000000000\<rceil>"
    using assms by (simp only: retryAfterSeconds_sint if_True)
  then have "word_of_int (sint (retryAfterSeconds d)) =
      (word_of_int \<lceil>real_of_int (sint d) / 1000000000\<rceil> :: 64 word)"
    by (rule arg_cong)
  then show ?thesis by simp
qed

lemma retry_after_written:
  assumes "100 \<le> status e" "status e \<le> 999"
  shows "\<exists>resp. writeJSONError v w (Some e) = Inr resp \<and>
           responseHeader resp ''Retry-After'' =
             (if 0 < sint (retryAfter e) then Some [FormatInt (retryAfterSeconds (retryAfter e))]
              else w ''Retry-After'')"
  using assms
  by (simp add: writeJSONError_def checkWriteHeaderCode_def Let_def Header_Set_def RetryAfter_def
      retryAfterSeconds_pos canonical_Content_Type canonical_API_Version canonical_Retry_After)

lemma retry_examples:
  "FormatInt (retryAfterSeconds (3 * Second)) = ''3''"
  "FormatInt (retryAfterSeconds (2500 * Millisecond)) = ''3''"
  "0 < sint (3 * Second)" "0 < sint (2500 * Millisecond)"
  by code_simp+

lemma constructed_with_retry:
  "status (NewServiceUnavailableError m [WithRetryAfter d]) = 503"
  "retryAfter (NewServiceUnavailableError m [WithRetryAfter d]) = d"
  "status (NewRateLimitExceededError m [WithRetryAfter d]) = 429"
  "retryAfter (NewRateLimitExceededError m [WithRetryAfter d]) = d"
  "status (NewProcessingError m []) = 500"
  "retryAfter (NewProcessingError m []) = 0"
  "status (NewInvalidRequestError m []) = 400"
  "retryAfter (NewInvalidRequestError m []) = 0"
  by (simp_all add: NewServiceUnavailableError_def NewRateLimitExceededError_def
      NewProcessingError_def NewInvalidRequestError_def newError_def WithStatusCode_def
      WithRetryAfter_def StatusServiceUnavailable_def StatusTooManyRequests_def
      StatusInternalServerError_def StatusBadRequest_def)

text \<open>
  Claim C8, as amended. For every structured error that \<^verbatim>\<open>writeJSONError\<close> writes (its
  status is one \<^verbatim>\<open>WriteHeader\<close> accepts, 100 to 999): when the retry duration of the error
  is strictly positive, the response carries Retry-After with the decimal rendering of the
  duration in seconds rounded up; when it is zero or negative, \<^verbatim>\<open>writeJSONError\<close> does not
  touch the header, so the response has a Retry-After header only if the writer held one
  before the call, and then that one. An error constructed with three seconds, or with
  2500 milliseconds, gives \<open>3\<close>; a nil payload is written as the internal-server error and
  leaves the header as it was.
\<close>

theorem retry_after_header:
  "100 \<le> status e \<Longrightarrow> status e \<le> 999 \<Longrightarrow>
   (\<exists>resp. writeJSONError v w (Some e) = Inr resp \<and>
      responseHeader resp ''Retry-After'' =
        (if 0 < sint (retryAfter e)
         then Some [FormatInt (word_of_int \<lceil>real_of_int (sint (retryAfter e)) / 1000000000\<rceil>)]
         else w ''Retry-After''))
   \<and> (\<exists>resp. writeJSONError v w (Some (NewServiceUnavailableError m [WithRetryAfter (3 * Second)])) = Inr resp \<and>
          responseHeader resp ''Retry-After'' = Some [''3''])
   \<and> (\<exists>resp. writeJSONError v w (Some (NewRateLimitExceededError m [WithRetryAfter (2500 * Millisecond)])) = Inr resp \<and>
          responseHeader resp ''Retry-After'' = Some [''3''])
   \<and> (\<exists>resp. writeJSONError v w None = Inr resp \<and>
          responseHeader resp ''Retry-After'' = w ''Retry-After'')"
proof (intro conjI)
  assume st: "100 \<le> status e" "status e \<le> 999"
  from retry_after_written [OF st] obtain resp where
    resp: "writeJSONError v w (Some e) = Inr resp"
    and h: "responseHeader resp ''Retry-After'' =
             (if 0 < sint (retryAfter e) then Some [FormatInt (retryAfterSeconds (retryAfter e))]
              else w ''Retry-After'')"
    by blast
  have "responseHeader resp ''Retry-After'' =
        (if 0 < sint (retryAfter e)
         then Some [FormatInt (word_of_int \<lceil>real_of_int (sint (retryAfter e)) / 1000000000\<rceil>)]
         else w ''Retry-After'')"
  proof (cases "0 < sint (retryAfter e)")
    case True
    then show ?thesis
      unfolding h by (simp only: if_True retryAfterSeconds_ceiling [OF True, symmetric])
  next
    case False
    then show ?thesis unfolding h by (simp only: if_False)
  qed
  with resp show "\<exists>resp. writeJSONError v w (Some e) = Inr resp \<and>
      responseHeader resp ''Retry-After'' =
        (if 0 < sint (retryAfter e)
         then Some [FormatInt (word_of_int \<lceil>real_of_int (sint (retryAfter e)) / 1000000000\<rceil>)]
         else w ''Retry-After'')"
    by blast
next
  have st: "100 \<le> status (NewServiceUnavailableError m [WithRetryAfter (3 * Second)])"
    "status (NewServiceUnavailableError m [WithRetryAfter (3 * Second)]) \<le> 999"
    by (simp_all add: constructed_with_retry)
  from retry_after_written [OF st, of v w]
  show "\<exists>resp. writeJSONError v w (Some (NewServiceUnavailableError m [WithRetryAfter (3 * Second)])) = Inr resp \<and>
          responseHeader resp ''Retry-After'' = Some [''3'']"
    by (simp only: constructed_with_retry retry_examples if_True)
next
  have st: "100 \<le> status (NewRateLimitExceededError m [WithRetryAfter (2500 * Millisecond)])"
    "status (NewRateLimitExceededError m [WithRetryAfter (2500 * Millisecond)]) \<le> 999"
    by (simp_all add: constructed_with_retry)
  from retry_after_written [OF st, of v w]
  show "\<exists>resp. writeJSONError v w (Some (NewRateLimitExceededError m [WithRetryAfter (2500 * Millisecond)])) = Inr resp \<and>
          responseHeader resp ''Retry-After'' = Some [''3'']"
    by (simp only: constructed_with_retry retry_examples if_True)
next
  have nil: "writeJSONError v w None = writeJSONError v w (Some (NewProcessingError ''internal server error'' []))"
    by (simp add: writeJSONError_def)
  have st: "100 \<le> status (NewProcessingError ''internal server error'' [])"
    "status (NewProcessingError ''internal server error'' []) \<le> 999"
    by (simp_all add: constructed_with_retry)
  from retry_after_written [OF st, of v w]
  show "\<exists>resp. writeJSONError v w None = Inr resp \<and>
          responseHeader resp ''Retry-After'' = w ''Retry-After''"
    unfolding nil by (simp add: constructed_with_retry)
qed

text \<open>
  Witness for C8: a rate-limit error with a negative retry duration written to a writer
  with no headers gives no Retry-After header; a service-unavailable error with three
  seconds gives \<open>3\<close>.
\<close>

theorem retry_after_header_witness:
  "100 \<le> status (NewRateLimitExceededError ''slow down'' [WithRetryAfter (- Second)])
   \<and> status (NewRateLimitExceededError ''slow down'' [WithRetryAfter (- Second)]) \<le> 999
   \<and> sint (retryAfter (NewRateLimitExceededError ''slow down'' [WithRetryAfter (- Second)])) = - 1000000000
   \<and> (\<exists>resp. writeJSONError (APIVersion fixture_lib) Map.empty
                 (Some (NewRateLimitExceededError ''slow down'' [WithRetryAfter (- Second)])) = Inr resp \<and>
              responseHeader resp ''Retry-After'' = None)
   \<and> (\<exists>resp. writeJSONError (APIVersion fixture_lib) Map.empty
                 (Some (NewServiceUnavailableError ''down'' [WithRetryAfter (3 * Second)])) = Inr resp \<and>
              responseHeader resp ''Retry-After'' = Some [''3''])"
proof -
  have st: "100 \<le> status (NewRateLimitExceededError ''slow down'' [WithRetryAfter (- Second)])"
    "status (NewRateLimitExceededError ''slow down'' [WithRetryAfter (- Second)]) \<le> 999"
    by (simp_all add: constructed_with_retry)
  have neg: "sint (retryAfter (NewRateLimitExceededError ''slow down'' [WithRetryAfter (- Second)])) = - 1000000000"
    by (simp add: constructed_with_retry Second_def)
  from retry_after_header [OF st, where v = "APIVersion fixture_lib" and w = Map.empty and m = "''down''"]
  show ?thesis
    using st neg by simp
qed

text \<open>
  Counterexample to C8 as stated: the writer already holds \<open>Retry-After: 30\<close> and the error
  has no retry duration. The response that is written carries the header although the
  duration is not positive.
\<close>

theorem stale_retry_after_is_kept:
  "sint (retryAfter (NewInvalidRequestError ''bad request'' [])) = 0
   \<and> \<not> isl (writeJSONError (APIVersion fixture_lib) (Header_Set Map.empty ''Retry-After'' ''30'')
              (Some (NewInvalidRequestError ''bad request'' [])))
   \<and> responseHeader (projr (writeJSONError (APIVersion fixture_lib) (Header_Set Map.empty ''Retry-After'' ''30'')
              (Some (NewInvalidRequestError ''bad request'' [])))) ''Retry-After'' = Some [''30'']"
  by (simp add: writeJSONError_def checkWriteHeaderCode_def Let_def Header_Set_def RetryAfter_def
      constructed_with_retry retryAfterSeconds_def
      canonical_Content_Type canonical_API_Version canonical_Retry_After)

subsection \<open>Base64 decoding inverts encoding\<close>

lemma distinct_encodeURL: "distinct encodeURL" by (simp add: encodeURL_def)
lemma length_encodeURL: "length encodeURL = 64" by (simp add: encodeURL_def)

lemma decodeMap_encode_sextet: "decodeMap (encode_sextet n) = Some (n mod 64)"
proof -
  have len: "length encodeURL = length [0..<64]"
    by (simp only: length_encodeURL length_upt diff_zero)
  have lt: "n mod 64 < length [0..<64]"
    by simp
  have nth: "[0..<64] ! (n mod 64) = n mod 64"
    using nth_upt [of 0 "n mod 64" 64] by (simp del: upt_conv_Cons upt_Suc)
  have "map_of (zip encodeURL [0..<64]) (encodeURL ! (n mod 64)) = Some ([0..<64] ! (n mod 64))"
    using len distinct_encodeURL lt by (rule map_of_zip_nth)
  then show ?thesis by (simp only: decodeMap_def encode_sextet_def nth)
qed


lemma sextets4:
  assumes "v < 16777216"
  shows "(v div 262144 mod 64) * 262144 + (v div 4096 mod 64) * 4096 + (v div 64 mod 64) * 64 + v mod 64 = (v::nat)"
proof -
  have a: "v = (v div 64) * 64 + v mod 64" by simp
  have b: "v div 64 = (v div 4096) * 64 + v div 64 mod 64"
    using div_mult_mod_eq [of "v div 64" 64] by (simp add: div_mult2_eq [symmetric])
  have c: "v div 4096 = (v div 262144) * 64 + v div 4096 mod 64"
    using div_mult_mod_eq [of "v div 4096" 64] by (simp add: div_mult2_eq [symmetric])
  have d: "v div 262144 mod 64 = v div 262144" using assms by simp
  show ?thesis using a b c d by linarith
qed

lemma of_char_lt_256: "(of_char c :: nat) < 256"
  by simp

lemma bytes_div_65536: "b < 256 \<Longrightarrow> c < 256 \<Longrightarrow> (a * 65536 + b * 256 + c) div 65536 = (a::nat)"
  by linarith
lemma bytes_div_256: "c < 256 \<Longrightarrow> (a * 65536 + b * 256 + c) div 256 = a * 256 + (b::nat)"
  by linarith
lemma bytes_mod_256:
  assumes "c < 256"
  shows "(a * 65536 + b * 256 + c) mod 256 = (c::nat)"
proof -
  have "a * 65536 + b * 256 + c = (a * 256 + b) * 256 + c" by simp
  then have "(a * 65536 + b * 256 + c) mod 256 = c mod 256"
    by (simp only: mod_mult_self3)
  then show ?thesis using assms by simp
qed
lemma bytes_lt: "a < 256 \<Longrightarrow> b < 256 \<Longrightarrow> c < 256 \<Longrightarrow> (a * 65536 + b * 256 + c) < (16777216::nat)"
  by linarith

lemma group24_lt: "group24 a b c < 16777216"
  unfolding group24_def by (intro bytes_lt of_char_lt_256)

lemma group24_bytes:
  "char_of (group24 a b c div 65536) = a"
  "char_of (group24 a b c div 256) = b"
  "char_of (group24 a b c) = c"
proof -
  have 1: "group24 a b c div 65536 = of_char a"
    unfolding group24_def by (intro bytes_div_65536 of_char_lt_256)
  show "char_of (group24 a b c div 65536) = a" by (simp add: 1)
  have 2: "group24 a b c div 256 = of_char a * 256 + of_char b"
    unfolding group24_def by (intro bytes_div_256 of_char_lt_256)
  have "(of_char a * 256 + of_char b) mod 256 = (of_char b :: nat)"
    by simp
  then have "char_of (of_char a * 256 + of_char b :: nat) = char_of (of_char b :: nat)"
    by (metis char_of_mod_256)
  then show "char_of (group24 a b c div 256) = b" by (simp add: 2)
  have "group24 a b c mod 256 = (of_char c :: nat)"
    unfolding group24_def by (intro bytes_mod_256 of_char_lt_256)
  then have "char_of (group24 a b c) = char_of (of_char c :: nat)"
    by (metis char_of_mod_256)
  then show "char_of (group24 a b c) = c" by simp
qed


lemma decode_group4:
  "decode_from [] (encode_sextet p # encode_sextet q # encode_sextet r # encode_sextet s # src) =
     (case decode_from [] src of
        Inl e \<Rightarrow> Inl e
      | Inr bs \<Rightarrow>
          (let val = (p mod 64) * 262144 + (q mod 64) * 4096 + (r mod 64) * 64 + s mod 64
           in Inr (char_of (val div 65536) # char_of (val div 256) # char_of val # bs)))"
  by (simp add: decodeMap_encode_sextet Let_def split: sum.split)

lemma decode_group3:
  "decode_from [] [encode_sextet p, encode_sextet q, encode_sextet r] =
     (let val = (p mod 64) * 262144 + (q mod 64) * 4096 + (r mod 64) * 64
      in Inr [char_of (val div 65536), char_of (val div 256)])"
  by (simp add: decodeMap_encode_sextet Let_def)

lemma decode_group2:
  "decode_from [] [encode_sextet p, encode_sextet q] =
     (let val = (p mod 64) * 262144 + (q mod 64) * 4096
      in Inr [char_of (val div 65536)])"
  by (simp add: decodeMap_encode_sextet Let_def)

lemma group24_sextets:
  "(group24 a b c div 262144 mod 64) * 262144 + (group24 a b c div 4096 mod 64) * 4096 +
   (group24 a b c div 64 mod 64) * 64 + group24 a b c mod 64 = group24 a b c"
  by (rule sextets4 [OF group24_lt])

lemma of_char_0: "(of_char (CHR 0x00) :: nat) = 0" by simp

lemma group24_b0: "group24 a b (CHR 0x00) = of_char a * 65536 + of_char b * 256"
  by (simp add: group24_def)

lemma group24_a0: "group24 a (CHR 0x00) (CHR 0x00) = of_char a * 65536"
  by (simp add: group24_def)

lemma mod64_b0: "group24 a b (CHR 0x00) mod 64 = 0"
proof -
  have "group24 a b (CHR 0x00) = (of_char a * 1024 + of_char b * 4) * 64"
    by (simp add: group24_def)
  then show ?thesis by (simp only: mod_mult_self2_is_0)
qed

lemma mod64_a0: "group24 a (CHR 0x00) (CHR 0x00) mod 64 = 0"
  by (rule mod64_b0)

lemma div64_mod64_a0: "group24 a (CHR 0x00) (CHR 0x00) div 64 mod 64 = 0"
proof -
  have "group24 a (CHR 0x00) (CHR 0x00) = (of_char a * 16 * 64) * 64"
    by (simp add: group24_def)
  then have "group24 a (CHR 0x00) (CHR 0x00) div 64 = (of_char a * 16) * 64"
    by simp
  then show ?thesis by (simp only: mod_mult_self2_is_0)
qed

lemma DecodeString_EncodeToString: "DecodeString (EncodeToString xs) = Inr xs"
  unfolding DecodeString_def
proof (induction xs rule: EncodeToString.induct)
  case (1 a b c rest)
  have v: "of_char a * 65536 + of_char b * 256 + of_char c = group24 a b c"
    by (simp add: group24_def)
  show ?case
    using 1 by (simp only: EncodeToString.simps Let_def v decode_group4 group24_sextets group24_bytes sum.case)
next
  case (2 a b)
  have v: "of_char a * 65536 + of_char b * 256 = group24 a b (CHR 0x00)"
    by (simp add: group24_def)
  have s: "(group24 a b (CHR 0x00) div 262144 mod 64) * 262144 + (group24 a b (CHR 0x00) div 4096 mod 64) * 4096 +
   (group24 a b (CHR 0x00) div 64 mod 64) * 64 = group24 a b (CHR 0x00)"
    using group24_sextets [of a b "CHR 0x00"] mod64_b0 [of a b] by linarith
  show ?case
    by (simp only: EncodeToString.simps Let_def v decode_group3 s group24_bytes)
next
  case (3 a)
  have v: "of_char a * 65536 = group24 a (CHR 0x00) (CHR 0x00)"
    by (simp add: group24_def)
  have s: "(group24 a (CHR 0x00) (CHR 0x00) div 262144 mod 64) * 262144 + (group24 a (CHR 0x00) (CHR 0x00) div 4096 mod 64) * 4096
     = group24 a (CHR 0x00) (CHR 0x00)"
    using group24_sextets [of a "CHR 0x00" "CHR 0x00"] mod64_a0 [of a] div64_mod64_a0 [of a] by linarith
  show ?case
    by (simp only: EncodeToString.simps Let_def v decode_group2 s group24_bytes)
next
  case 4
  show ?case by simp
qed

subsection \<open>The HMAC verifier\<close>




subsection \<open>Partial signing material\<close>

lemma NewHTTPError_fields:
  "status (NewHTTPError st typ cod msg []) = st"
  "Type (NewHTTPError st typ cod msg []) = typ"
  "Code (NewHTTPError st typ cod msg []) = cod"
  "Message (NewHTTPError st typ cod msg []) = msg"
  "Param (NewHTTPError st typ cod msg []) = None"
  "retryAfter (NewHTTPError st typ cod msg []) = 0"
  by (simp_all add: NewHTTPError_def newError_def WithStatusCode_def)

lemma writeJSONError_Some:
  assumes "100 \<le> status e" "status e \<le> 999"
  shows "\<not> isl (writeJSONError v w (Some e))"
    "statusCode (projr (writeJSONError v w (Some e))) = status e"
    "responsePayload (projr (writeJSONError v w (Some e))) = e"
  using assms by (simp_all add: writeJSONError_def checkWriteHeaderCode_def Let_def)

lemma writeJSONError_panics:
  "status e < 100 \<or> 999 < status e \<Longrightarrow>
   writeJSONError v w (Some e) = Inl (invalidWriteHeaderCode (status e))"
  by (simp add: writeJSONError_def checkWriteHeaderCode_def Let_def)

lemma written:
  "\<not> isl x \<Longrightarrow> \<exists>resp. x = Inr resp \<and> resp = projr x"
  by (cases x) simp_all

text \<open>
  Claim C5. With a verifier configured, a request in which exactly one of the trimmed
  Signature and Timestamp headers is non-empty is answered with status 400 and code
  \<open>invalid_signature\<close>, whatever \<open>RequireSigned\<close> is, and the middleware neither reads the
  body nor calls the verifier.
\<close>

theorem partial_signing_material_rejected:
  "newSignatureMiddleware lib cfg = Some mw \<Longrightarrow>
   (TrimSpace (Header_Get (reqHeader r) ''Signature'') = []) \<noteq>
   (TrimSpace (Header_Get (reqHeader r) ''Timestamp'') = []) \<Longrightarrow>
   mw w r =
     ([], Respond (writeJSONError (APIVersion lib) w
            (Some (NewHTTPError StatusBadRequest InvalidRequest InvalidSignature
                     ''Signature and Timestamp headers must both be provided'' []))))
   \<and> (\<exists>resp. snd (mw w r) = Respond (Inr resp) \<and> statusCode resp = 400 \<and>
          Code (responsePayload resp) = ''invalid_signature'' \<and>
          Type (responsePayload resp) = ''invalid_request'')
   \<and> ReadBody \<notin> set (fst (mw w r)) \<and> (\<forall>m. Verify m \<notin> set (fst (mw w r)))"
proof -
  assume mw: "newSignatureMiddleware lib cfg = Some mw"
    and one: "(TrimSpace (Header_Get (reqHeader r) ''Signature'') = []) \<noteq>
       (TrimSpace (Header_Get (reqHeader r) ''Timestamp'') = [])"
  from mw obtain v where v: "Verifier cfg = Some v"
    by (cases "Verifier cfg") (simp_all add: newSignatureMiddleware_def)
  from mw v have mw_eq:
    "mw = signatureHandler lib (if Clock cfg = None then cfg\<lparr>Clock := Some (time_Now lib)\<rparr> else cfg)"
    by (simp add: newSignatureMiddleware_def)
  have run: "mw w r =
     ([], Respond (writeJSONError (APIVersion lib) w
            (Some (NewHTTPError StatusBadRequest InvalidRequest InvalidSignature
                     ''Signature and Timestamp headers must both be provided'' []))))"
    using one v by (auto simp: mw_eq signatureHandler_def Let_def)
  define e where "e = NewHTTPError StatusBadRequest InvalidRequest InvalidSignature
                     ''Signature and Timestamp headers must both be provided'' []"
  have st: "100 \<le> status e" "status e \<le> 999"
    by (simp_all add: e_def NewHTTPError_fields StatusBadRequest_def)
  from written [OF writeJSONError_Some(1) [OF st]] obtain resp where
    resp: "writeJSONError (APIVersion lib) w (Some e) = Inr resp"
      "resp = projr (writeJSONError (APIVersion lib) w (Some e))"
    by blast
  have "statusCode resp = 400" "Code (responsePayload resp) = ''invalid_signature''"
    "Type (responsePayload resp) = ''invalid_request''"
    unfolding resp(2) writeJSONError_Some(2,3) [OF st]
    by (simp_all add: e_def NewHTTPError_fields StatusBadRequest_def InvalidSignature_def InvalidRequest_def)
  with resp(1) show ?thesis
    unfolding run e_def [symmetric] by simp
qed

lemma fixture_middleware:
  "newSignatureMiddleware fixture_lib (fixture_config required skew) =
     Some (signatureHandler fixture_lib (fixture_config required skew))"
  by (simp add: newSignatureMiddleware_def fixture_config_def)

lemma only_signature:
  "TrimSpace (Header_Get (reqHeader (fixture_request [(''Signature'', ''c2ln'')] NilBody)) ''Signature'') = ''c2ln''"
  "TrimSpace (Header_Get (reqHeader (fixture_request [(''Signature'', ''c2ln'')] NilBody)) ''Timestamp'') = []"
  by code_simp+

text \<open>
  Witness for C5: a request that carries a Signature header and no Timestamp header, with
  enforcement on.
\<close>

theorem partial_signing_material_witness:
  "newSignatureMiddleware fixture_lib (fixture_config True (5 * Minute)) =
     Some (signatureHandler fixture_lib (fixture_config True (5 * Minute)))
   \<and> TrimSpace (Header_Get (reqHeader (fixture_request [(''Signature'', ''c2ln'')] NilBody)) ''Signature'') = ''c2ln''
   \<and> TrimSpace (Header_Get (reqHeader (fixture_request [(''Signature'', ''c2ln'')] NilBody)) ''Timestamp'') = []
   \<and> (\<exists>resp. signatureHandler fixture_lib (fixture_config True (5 * Minute)) Map.empty
                 (fixture_request [(''Signature'', ''c2ln'')] NilBody) = ([], Respond (Inr resp))
              \<and> statusCode resp = 400 \<and> Code (responsePayload resp) = ''invalid_signature'')"
proof -
  have one: "(TrimSpace (Header_Get (reqHeader (fixture_request [(''Signature'', ''c2ln'')] NilBody)) ''Signature'') = []) \<noteq>
    (TrimSpace (Header_Get (reqHeader (fixture_request [(''Signature'', ''c2ln'')] NilBody)) ''Timestamp'') = [])"
    by (simp add: only_signature)
  note t = partial_signing_material_rejected
    [OF fixture_middleware [of True "5 * Minute"] one, where w = Map.empty]
  from t obtain resp where
    r1: "snd (signatureHandler fixture_lib (fixture_config True (5 * Minute)) Map.empty
           (fixture_request [(''Signature'', ''c2ln'')] NilBody)) = Respond (Inr resp)"
    and r2: "statusCode resp = 400" "Code (responsePayload resp) = ''invalid_signature''"
    by blast
  from t have r0: "fst (signatureHandler fixture_lib (fixture_config True (5 * Minute)) Map.empty
           (fixture_request [(''Signature'', ''c2ln'')] NilBody)) = []"
    by simp
  from r0 r1 have "signatureHandler fixture_lib (fixture_config True (5 * Minute)) Map.empty
           (fixture_request [(''Signature'', ''c2ln'')] NilBody) = ([], Respond (Inr resp))"
    by (simp add: prod_eq_iff)
  with r2 have "\<exists>resp. signatureHandler fixture_lib (fixture_config True (5 * Minute)) Map.empty
                 (fixture_request [(''Signature'', ''c2ln'')] NilBody) = ([], Respond (Inr resp))
              \<and> statusCode resp = 400 \<and> Code (responsePayload resp) = ''invalid_signature''"
    by blast
  then show ?thesis
    using fixture_middleware [of True "5 * Minute"] only_signature by blast
qed

subsection \<open>The clock-skew check\<close>

lemma AbsDuration_minDuration: "AbsDuration minDuration = minDuration"
  by (simp add: AbsDuration_def minDuration_def word_sless_alt)

lemma sint_minDuration: "sint minDuration = - (2 ^ 63)"
  by (simp add: minDuration_def)

lemma far_future_Sub:
  "Sub noon \<lparr>unixNano = 13569465600000000000, zoneOffset = 0\<rparr> = minDuration"
  by (simp add: Sub_def noon_def)

lemma enc1: "EncodeToString ''secretother.{}'' = ''c2VjcmV0b3RoZXIue30''"
  by (simp add: encode_sextet_def encodeURL_def)

lemma far_future_headers:
  "TrimSpace (Header_Get (reqHeader far_future_request) ''Signature'') = ''c2VjcmV0b3RoZXIue30''"
  "TrimSpace (Header_Get (reqHeader far_future_request) ''Timestamp'') = ''2400-01-01T00:00:00Z''"
  by code_simp+

lemma far_future_parse:
  "ParseTimestamp fixture_lib ''2400-01-01T00:00:00Z'' = Inr \<lparr>unixNano = 13569465600000000000, zoneOffset = 0\<rparr>"
  by (simp add: ParseTimestamp_def fixture_lib_def)

lemma canonical_empty_object: "CanonicalizeJSONBody fixture_lib ''{}'' = Inr ''{}''"
  by code_simp

lemma far_future_body:
  "ReadAndBufferBody far_future_request = (far_future_request, Inr ''{}'')"
  by (simp add: ReadAndBufferBody_def far_future_request_def fixture_request_def)

lemma not_stale: "\<not> Minute <s AbsDuration minDuration"
  by (simp add: AbsDuration_minDuration word_sless_alt sint_minDuration Minute_def)

lemma far_future_verify:
  "HMACVerifier_Verify fixture_lib ''secret''
     \<lparr>Signature = ''c2VjcmV0b3RoZXIue30'',
      Timestamp = \<lparr>unixNano = 13569465600000000000, zoneOffset = 0\<rparr>,
      CanonicalBody = ''{}'', Method = m, Path = p, RawQuery = q, Headers = h\<rparr> = None"
proof -
  have "BuildSigningPayload fixture_lib \<lparr>unixNano = 13569465600000000000, zoneOffset = 0\<rparr> ''{}'' = ''other.{}''"
    by (simp add: BuildSigningPayload_def fixture_lib_def UTC_def)
  then have mac: "hmac_sha256 fixture_lib ''secret''
      (BuildSigningPayload fixture_lib \<lparr>unixNano = 13569465600000000000, zoneOffset = 0\<rparr> ''{}'') = ''secretother.{}''"
    by (simp add: fixture_lib_def)
  have "DecodeString ''c2VjcmV0b3RoZXIue30'' = Inr ''secretother.{}''"
    using DecodeString_EncodeToString [of "''secretother.{}''"] by (simp only: enc1)
  then show ?thesis
    by (simp add: HMACVerifier_Verify_def Let_def mac hmac_Equal_def)
qed

text \<open>
  Claim C4, evaluated where the code departs from it. The bound is one minute, the clock
  reads noon of 1 January 2025 and the Timestamp header is \<open>2400-01-01T00:00:00Z\<close>. The
  difference does not fit a \<open>Duration\<close>, \<^verbatim>\<open>Sub\<close> answers the smallest duration, and
  \<^verbatim>\<open>AbsDuration\<close> negates it into itself: the skew is negative, the request is not
  answered with \<open>stale_timestamp\<close>, and with a signature that matches it is handed to the
  next handler.
\<close>

theorem far_future_timestamp_passes_skew_check:
  "signatureHandler fixture_lib (fixture_config True Minute) Map.empty far_future_request =
     ([ReadBody,
       Verify \<lparr>Signature = ''c2VjcmV0b3RoZXIue30'',
               Timestamp = \<lparr>unixNano = 13569465600000000000, zoneOffset = 0\<rparr>,
               CanonicalBody = ''{}'', Method = ''POST'', Path = ''/checkout_sessions'', RawQuery = [],
               Headers = reqHeader far_future_request\<rparr>],
      Next far_future_request)
   \<and> AbsDuration (Sub noon \<lparr>unixNano = 13569465600000000000, zoneOffset = 0\<rparr>) = minDuration
   \<and> sint minDuration < 0"
proof -
  have "signatureHandler fixture_lib (fixture_config True Minute) Map.empty far_future_request =
     ([ReadBody,
       Verify \<lparr>Signature = ''c2VjcmV0b3RoZXIue30'',
               Timestamp = \<lparr>unixNano = 13569465600000000000, zoneOffset = 0\<rparr>,
               CanonicalBody = ''{}'', Method = ''POST'', Path = ''/checkout_sessions'', RawQuery = [],
               Headers = reqHeader far_future_request\<rparr>],
      Next far_future_request)"
    unfolding signatureHandler_def
    by (simp add: fixture_config_def far_future_headers far_future_parse UTC_def
        far_future_Sub not_stale far_future_body canonical_empty_object far_future_verify Let_def)
       (simp add: far_future_request_def fixture_request_def)
  then show ?thesis
    by (simp add: far_future_Sub AbsDuration_minDuration sint_minDuration)
qed

subsection \<open>Errors of the authenticator\<close>









subsection \<open>Canonicalising blank bodies and trailing data\<close>

lemma TrimLeftSpace_ascii: "ascii_space a \<Longrightarrow> TrimLeftSpace (a # s) = TrimLeftSpace s"
proof (cases s)
  case Nil then show "ascii_space a \<Longrightarrow> ?thesis" by simp
next
  case (Cons b s')
  then show "ascii_space a \<Longrightarrow> ?thesis" by (cases s') simp_all
qed

lemma space2_not_ascii: "space2 a b \<Longrightarrow> \<not> ascii_space a"
  by (auto simp: space2_def ascii_space_def)

lemma space3_not_ascii: "space3 a b c \<Longrightarrow> \<not> ascii_space a \<and> \<not> space2 a b"
  by (auto simp: space3_def space2_def ascii_space_def)

lemma TrimLeftSpace_space2: "space2 a b \<Longrightarrow> TrimLeftSpace (a # b # s) = TrimLeftSpace s"
  by (cases s) (simp_all add: space2_not_ascii)

lemma TrimLeftSpace_space3: "space3 a b c \<Longrightarrow> TrimLeftSpace (a # b # c # s) = TrimLeftSpace s"
  by (simp add: space3_not_ascii)

lemma TrimLeftSpace_rune: "space_rune w \<Longrightarrow> TrimLeftSpace (w @ s) = TrimLeftSpace s"
  by (induction w rule: space_rune.induct)
     (simp_all add: TrimLeftSpace_ascii TrimLeftSpace_space2 TrimLeftSpace_space3 del: TrimLeftSpace.simps)

lemma TrimLeftSpace_runes: "list_all space_rune ws \<Longrightarrow> TrimLeftSpace (concat ws) = []"
  by (induction ws) (simp_all add: TrimLeftSpace_rune del: TrimLeftSpace.simps(1,2,3))

lemma TrimSpace_runes: "list_all space_rune ws \<Longrightarrow> TrimSpace (concat ws) = []"
  by (simp add: TrimSpace_def TrimRightSpace_def TrimLeftSpace_runes)

lemma blank_body_is_null:
  "list_all space_rune ws \<Longrightarrow> CanonicalizeJSONBody lib (concat ws) = Inr ''null''"
  by (simp add: CanonicalizeJSONBody_def TrimSpace_runes)

lemma empty_body_is_null: "CanonicalizeJSONBody lib [] = Inr ''null''"
  using blank_body_is_null [of "[]"] by simp

lemma ascii_blank_body_is_null:
  assumes "list_all ascii_space raw"
  shows "CanonicalizeJSONBody lib raw = Inr ''null''"
proof -
  have "list_all space_rune (map (\<lambda>c. [c]) raw)"
    using assms by (induction raw) simp_all
  moreover have "concat (map (\<lambda>c. [c]) raw) = raw"
    by (induction raw) simp_all
  ultimately show ?thesis using blank_body_is_null [of "map (\<lambda>c. [c]) raw" lib] by simp
qed

lemma Decode_trailing_bracket: "Decode ''{}]'' = Inr (JObject [], '']'')"
  by code_simp

lemma Decode_trailing_document: "Decode ''{}]{}'' = Inr (JObject [], '']{}'')"
  by code_simp

lemma Decode_object: "Decode ''{}'' = Inr (JObject [], [])"
  by code_simp

lemma Decode_trailing_x: "Decode ''{} x'' = Inr (JObject [], '' x'')"
  by code_simp

lemma More_examples: "More '']'' = False" "More '']{}'' = False" "More [] = False" "More '' x'' = True"
  by code_simp+

lemma nonblank: "TrimSpace ''{}]'' \<noteq> []" "TrimSpace ''{}]{}'' \<noteq> []" "TrimSpace ''{}'' \<noteq> []" "TrimSpace ''{} x'' \<noteq> []"
  by code_simp+

lemma canonical_empty_object_any: "canonicaljson_Marshal lib (JObject []) = Inr ''{}''"
  by (simp add: canonicaljson_Marshal_def)

text \<open>
  Claim C7, evaluated where the code departs from it. The body \<open>{}]\<close> is a JSON document
  followed by data that is not white space, and so is \<open>{}]{}\<close>; \<^verbatim>\<open>More\<close> answers false
  before a closing bracket, so both canonicalise like \<open>{}\<close> and no error is returned. Data
  that starts with another byte, as in \<open>{} x\<close>, is reported.
\<close>

theorem trailing_bracket_is_not_reported:
  "CanonicalizeJSONBody lib ''{}]'' = Inr ''{}''
   \<and> CanonicalizeJSONBody lib ''{}]{}'' = Inr ''{}''
   \<and> CanonicalizeJSONBody lib ''{}'' = Inr ''{}''
   \<and> CanonicalizeJSONBody lib ''{} x'' = Inl (errorString ''signature: multiple JSON documents in body'')
   \<and> Decode ''{}]'' = Inr (JObject [], '']'') \<and> More '']'' = False"
  by (simp add: CanonicalizeJSONBody_def nonblank Decode_trailing_bracket Decode_trailing_document
      Decode_object Decode_trailing_x More_examples canonical_empty_object_any)

subsection \<open>Webhook delivery\<close>

lemma Header_Get_Set: "Header_Get (Header_Set h k v) k = v"
  by (simp add: Header_Get_def Header_Set_def)

text \<open>
  Claim C9. When a webhook is configured, the event envelope serialises and the endpoint
  parses, \<^verbatim>\<open>SendWebhook\<close> hands exactly one POST request to the client; its body is the
  serialised envelope, and the configured header holds the unpadded base64url encoding of
  the HMAC of exactly those bytes under the configured secret. A transport error, or a
  status outside 200 to 299, is returned as an error; there is no second request.
\<close>

theorem SendWebhook_signs_serialized_body:
  "webhook (checkoutCfg h) = Some wh \<Longrightarrow>
   json_Marshal lib \<lparr>eventTypeTag = eventType data, Data = data\<rparr> = Inr body_bytes \<Longrightarrow>
   url_Parse lib (endpoint wh) = None \<Longrightarrow>
   (\<exists>req. fst (SendWebhook lib h data) = [req] \<and>
          outMethod req = ''POST'' \<and> outURL req = endpoint wh \<and> outBody req = body_bytes \<and>
          Header_Get (outHeader req) (header wh) = EncodeToString (hmac_sha256 lib (secret wh) body_bytes) \<and>
          snd (SendWebhook lib h data) =
            (case client wh req of
               Inl err \<Rightarrow> Some (wrapError ''checkout: send webhook: '' err)
             | Inr resp \<Rightarrow>
                 if 200 \<le> StatusCode resp \<and> StatusCode resp < 300 then None
                 else Some (errorString
                        (''checkout: webhook endpoint '' @ endpoint wh @ '' returned '' @ StatusText resp @
                         '': '' @ TrimSpace (take 4096 (ResponseBody resp))))))"
  by (auto simp: SendWebhook_def Let_def Header_Get_Set signWebhookPayload_def StatusOK_def
      StatusMultipleChoices_def split: sum.splits)

text \<open>
  Witness for C9: an order-created event sent to an endpoint that answers 202.
\<close>

theorem SendWebhook_witness:
  "webhook (checkoutCfg (webhook_handler (http_DefaultClient fixture_lib))) =
     Some \<lparr>endpoint = ''https://merchant.example/hook'', header = ''Merchant_Name-Signature'',
           secret = ''super-secret'', client = http_DefaultClient fixture_lib\<rparr>
   \<and> json_Marshal fixture_lib \<lparr>eventTypeTag = eventType order_created, Data = order_created\<rparr> = Inr ''{}''
   \<and> url_Parse fixture_lib ''https://merchant.example/hook'' = None
   \<and> (\<exists>req. SendWebhook fixture_lib (webhook_handler (http_DefaultClient fixture_lib)) order_created = ([req], None)
          \<and> outBody req = ''{}''
          \<and> Header_Get (outHeader req) ''Merchant_Name-Signature'' = EncodeToString (''super-secret{}''))"
proof -
  have w: "webhook (checkoutCfg (webhook_handler (http_DefaultClient fixture_lib))) =
     Some \<lparr>endpoint = ''https://merchant.example/hook'', header = ''Merchant_Name-Signature'',
           secret = ''super-secret'', client = http_DefaultClient fixture_lib\<rparr>"
    by (simp add: webhook_handler_def)
  have m: "json_Marshal fixture_lib \<lparr>eventTypeTag = eventType order_created, Data = order_created\<rparr> = Inr ''{}''"
    by (simp add: fixture_lib_def)
  have u: "url_Parse fixture_lib (endpoint \<lparr>endpoint = ''https://merchant.example/hook'', header = ''Merchant_Name-Signature'',
           secret = ''super-secret'', client = http_DefaultClient fixture_lib\<rparr>) = None"
    by (simp add: fixture_lib_def)
  have c: "http_DefaultClient fixture_lib req =
       Inr \<lparr>StatusCode = 202, StatusText = ''202 Accepted'', ResponseBody = []\<rparr>" for req
    by (simp add: fixture_lib_def)
  have k: "hmac_sha256 fixture_lib ''super-secret'' ''{}'' = ''super-secret{}''"
    by (simp add: fixture_lib_def)
  from SendWebhook_signs_serialized_body [OF w m u]
  have "\<exists>req. SendWebhook fixture_lib (webhook_handler (http_DefaultClient fixture_lib)) order_created = ([req], None)
          \<and> outBody req = ''{}''
          \<and> Header_Get (outHeader req) ''Merchant_Name-Signature'' = EncodeToString (''super-secret{}'')"
    by (auto simp: c k prod_eq_iff simp del: EncodeToString.simps)
  then show ?thesis using w m u by (simp del: EncodeToString.simps)
qed

subsection \<open>Construction with enforcement\<close>

lemma signature_middleware_installed:
  assumes "signatureVerifier cfg \<noteq> None"
  shows "\<exists>mw. newSignatureMiddleware lib (signature_config cfg) = Some mw \<and>
          (\<forall>w r. requireSignedRequests cfg \<and>
                 TrimSpace (Header_Get (reqHeader r) ''Signature'') = [] \<and>
                 TrimSpace (Header_Get (reqHeader r) ''Timestamp'') = []
                 \<longrightarrow> mw w r = ([], Respond (signature_required_response lib w)))"
  using assms
  by (auto simp: newSignatureMiddleware_def signature_config_def signatureHandler_def Let_def
      signature_required_response_def)

lemma signature_required_written:
  "\<exists>resp. signature_required_response lib w = Inr resp \<and> statusCode resp = 401 \<and>
     Code (responsePayload resp) = ''signature_required''"
proof -
  define e where "e = NewHTTPError StatusUnauthorized InvalidRequest SignatureRequired
                     ''Signature and Timestamp headers are required'' []"
  have st: "100 \<le> status e" "status e \<le> 999"
    by (simp_all add: e_def NewHTTPError_fields StatusUnauthorized_def)
  from written [OF writeJSONError_Some(1) [OF st, of "APIVersion lib" w]]
    writeJSONError_Some(2,3) [OF st, of "APIVersion lib" w]
  show ?thesis
    unfolding signature_required_response_def e_def [symmetric]
    by (auto simp: e_def NewHTTPError_fields StatusUnauthorized_def SignatureRequired_def)
qed

text \<open>
  Claim C10. When the resolved configuration requires signed requests: without a verifier
  both constructors panic; a handler that is returned has a verifier, and its signature
  middleware is installed next to every route, so that a request without Signature and
  Timestamp headers is answered with \<open>signature_required\<close> and never reaches the route's
  handler.
\<close>

theorem enforcement_requires_verifier:
  "requireSignedRequests (apply_options (default_config lib) opts) \<Longrightarrow>
   (signatureVerifier (apply_options (default_config lib) opts) = None \<longrightarrow>
      NewCheckoutHandler lib service opts =
        Inl ''checkout: signature verifier required when signed requests are enforced'' \<and>
      (\<exists>msg. NewDelegatedPaymentHandler lib service' opts = Inl msg))
   \<and> (\<forall>h. NewCheckoutHandler lib service opts = Inr h \<longrightarrow>
          checkoutCfg h = apply_options (default_config lib) opts \<and>
          signatureVerifier (checkoutCfg h) \<noteq> None \<and>
          (\<exists>mw. checkoutMiddleware h = [mw] \<and>
             (\<forall>route w r. TrimSpace (Header_Get (reqHeader r) ''Signature'') = [] \<and>
                          TrimSpace (Header_Get (reqHeader r) ''Timestamp'') = []
                \<longrightarrow> applyMiddleware route (checkoutMiddleware h) w r = ([], signature_required_response lib w))))
   \<and> (\<forall>h. NewDelegatedPaymentHandler lib service' opts = Inr h \<longrightarrow>
          delegatedCfg h = apply_options (default_config lib) opts \<and>
          signatureVerifier (delegatedCfg h) \<noteq> None \<and>
          (\<exists>mw rest. delegatedMiddleware h = mw # rest \<and>
             (\<forall>route w r. TrimSpace (Header_Get (reqHeader r) ''Signature'') = [] \<and>
                          TrimSpace (Header_Get (reqHeader r) ''Timestamp'') = []
                \<longrightarrow> wrap mw route w r = ([], signature_required_response lib w))))
   \<and> (\<forall>w. \<exists>resp. signature_required_response lib w = Inr resp \<and> statusCode resp = 401 \<and>
          Code (responsePayload resp) = ''signature_required'')"
proof -
  define cfg where "cfg = apply_options (default_config lib) opts"
  assume req: "requireSignedRequests (apply_options (default_config lib) opts)"
  then have rq: "requireSignedRequests cfg" by (simp add: cfg_def)
  have panic: "signatureVerifier cfg = None \<longrightarrow>
      NewCheckoutHandler lib service opts =
        Inl ''checkout: signature verifier required when signed requests are enforced'' \<and>
      (\<exists>msg. NewDelegatedPaymentHandler lib service' opts = Inl msg)"
    using rq by (simp add: NewCheckoutHandler_def NewDelegatedPaymentHandler_def cfg_def [symmetric] Let_def)
  have checkout: "checkoutCfg h = cfg \<and> signatureVerifier (checkoutCfg h) \<noteq> None \<and>
          (\<exists>mw. checkoutMiddleware h = [mw] \<and>
             (\<forall>route w r. TrimSpace (Header_Get (reqHeader r) ''Signature'') = [] \<and>
                          TrimSpace (Header_Get (reqHeader r) ''Timestamp'') = []
                \<longrightarrow> applyMiddleware route (checkoutMiddleware h) w r = ([], signature_required_response lib w)))"
    if h: "NewCheckoutHandler lib service opts = Inr h" for h
  proof -
    from h rq have v: "signatureVerifier cfg \<noteq> None"
      by (auto simp: NewCheckoutHandler_def cfg_def [symmetric] Let_def split: if_splits)
    from signature_middleware_installed [OF v, of lib] obtain mw where
      mw: "newSignatureMiddleware lib (signature_config cfg) = Some mw"
      and rej: "\<And>w r. TrimSpace (Header_Get (reqHeader r) ''Signature'') = [] \<Longrightarrow>
                 TrimSpace (Header_Get (reqHeader r) ''Timestamp'') = []
                 \<Longrightarrow> mw w r = ([], Respond (signature_required_response lib w))"
      using rq by blast
    from h v rq mw have hh: "checkoutCfg h = cfg" "checkoutMiddleware h = [mw]"
      by (auto simp: NewCheckoutHandler_def cfg_def [symmetric] Let_def split: if_splits)
    show ?thesis using hh v rej by (auto simp: wrap_def)
  qed
  have delegated: "delegatedCfg h = cfg \<and> signatureVerifier (delegatedCfg h) \<noteq> None \<and>
          (\<exists>mw rest. delegatedMiddleware h = mw # rest \<and>
             (\<forall>route w r. TrimSpace (Header_Get (reqHeader r) ''Signature'') = [] \<and>
                          TrimSpace (Header_Get (reqHeader r) ''Timestamp'') = []
                \<longrightarrow> wrap mw route w r = ([], signature_required_response lib w)))"
    if h: "NewDelegatedPaymentHandler lib service' opts = Inr h" for h
  proof -
    from h rq have v: "signatureVerifier cfg \<noteq> None"
      by (auto simp: NewDelegatedPaymentHandler_def cfg_def [symmetric] Let_def split: if_splits)
    from signature_middleware_installed [OF v, of lib] obtain mw where
      mw: "newSignatureMiddleware lib (signature_config cfg) = Some mw"
      and rej: "\<And>w r. TrimSpace (Header_Get (reqHeader r) ''Signature'') = [] \<Longrightarrow>
                 TrimSpace (Header_Get (reqHeader r) ''Timestamp'') = []
                 \<Longrightarrow> mw w r = ([], Respond (signature_required_response lib w))"
      using rq by blast
    from h v rq mw have hh: "delegatedCfg h = cfg"
      "delegatedMiddleware h = mw # ((if authenticator cfg \<noteq> None then [authenticationMiddleware lib cfg] else []) @ middleware cfg)"
      by (auto simp: NewDelegatedPaymentHandler_def cfg_def [symmetric] Let_def split: if_splits)
    show ?thesis using hh v rej by (auto simp: wrap_def)
  qed
  show ?thesis
    using panic checkout delegated signature_required_written unfolding cfg_def by blast
qed

lemma unsigned_headers:
  "TrimSpace (Header_Get (reqHeader unsigned_request) ''Signature'') = []"
  "TrimSpace (Header_Get (reqHeader unsigned_request) ''Timestamp'') = []"
  by code_simp+

lemma resolved_unverified:
  "requireSignedRequests (apply_options (default_config fixture_lib) [WithRequireSignedRequests])"
  "signatureVerifier (apply_options (default_config fixture_lib) [WithRequireSignedRequests]) = None"
  by (simp_all add: WithRequireSignedRequests_def default_config_def)

lemma resolved_enforcing:
  "requireSignedRequests (apply_options (default_config fixture_lib) enforcing_options)"
  by (simp add: enforcing_options_def WithRequireSignedRequests_def WithSignatureVerifier_def default_config_def)

text \<open>
  Witness for C10: requiring signed requests alone makes both constructors panic; with a
  verifier as well, the checkout handler is built and answers an unsigned request with
  status 401.
\<close>

theorem enforcement_requires_verifier_witness:
  "requireSignedRequests (apply_options (default_config fixture_lib) [WithRequireSignedRequests])
   \<and> signatureVerifier (apply_options (default_config fixture_lib) [WithRequireSignedRequests]) = None
   \<and> NewCheckoutHandler fixture_lib (Some ()) [WithRequireSignedRequests] =
        Inl ''checkout: signature verifier required when signed requests are enforced''
   \<and> (\<exists>msg. NewDelegatedPaymentHandler fixture_lib (Some ()) [WithRequireSignedRequests] = Inl msg)
   \<and> requireSignedRequests (apply_options (default_config fixture_lib) enforcing_options)
   \<and> (\<exists>h. NewCheckoutHandler fixture_lib (Some ()) enforcing_options = Inr h \<and>
          applyMiddleware (\<lambda>w r. ([], Inr \<lparr>responseHeader = w, statusCode = 200, responsePayload = auth_down\<rparr>))
            (checkoutMiddleware h) Map.empty unsigned_request =
          ([], signature_required_response fixture_lib Map.empty))
   \<and> (\<exists>resp. signature_required_response fixture_lib Map.empty = Inr resp \<and> statusCode resp = 401 \<and>
          Code (responsePayload resp) = ''signature_required'')"
proof -
  note a = enforcement_requires_verifier [OF resolved_unverified(1), where service = "Some ()" and service' = "Some ()"]
  note b = enforcement_requires_verifier [OF resolved_enforcing, where service = "Some ()" and service' = "Some ()"]
  have built: "\<exists>h. NewCheckoutHandler fixture_lib (Some ()) enforcing_options = Inr h"
    by (simp add: NewCheckoutHandler_def enforcing_options_def WithRequireSignedRequests_def
        WithSignatureVerifier_def default_config_def Let_def)
  then obtain h where h: "NewCheckoutHandler fixture_lib (Some ()) enforcing_options = Inr h" ..
  from b h unsigned_headers have
    "applyMiddleware (\<lambda>w r. ([], Inr \<lparr>responseHeader = w, statusCode = 200, responsePayload = auth_down\<rparr>))
            (checkoutMiddleware h) Map.empty unsigned_request =
          ([], signature_required_response fixture_lib Map.empty)"
    by blast
  with h have ex: "\<exists>h. NewCheckoutHandler fixture_lib (Some ()) enforcing_options = Inr h \<and>
          applyMiddleware (\<lambda>w r. ([], Inr \<lparr>responseHeader = w, statusCode = 200, responsePayload = auth_down\<rparr>))
            (checkoutMiddleware h) Map.empty unsigned_request =
          ([], signature_required_response fixture_lib Map.empty)"
    by blast
  have st: "\<exists>resp. signature_required_response fixture_lib Map.empty = Inr resp \<and> statusCode resp = 401 \<and>
          Code (responsePayload resp) = ''signature_required''"
    by (rule signature_required_written)
  from a resolved_unverified(2) have
    "NewCheckoutHandler fixture_lib (Some ()) [WithRequireSignedRequests] =
        Inl ''checkout: signature verifier required when signed requests are enforced''"
    "\<exists>msg. NewDelegatedPaymentHandler fixture_lib (Some ()) [WithRequireSignedRequests] = Inl msg"
    by blast+
  then show ?thesis
    using resolved_unverified resolved_enforcing ex st by blast
qed

subsection \<open>Canonical form is stable\<close>

subsubsection \<open>Number literals\<close>









subsubsection \<open>Bytes and escapes\<close>




lemma char_of_byte: "char_of (byte c) = c"
  by (simp add: byte_def)

lemma byte_eq_iff: "byte c = byte d \<longleftrightarrow> c = d"
  by (metis char_of_byte)

lemma byte_CHR [simp]:
  "byte (CHR 0x22) = 0x22" "byte (CHR 0x5C) = 0x5C" "byte (CHR 0x08) = 8" "byte (CHR 0x0C) = 12"
  "byte (CHR 0x0A) = 10" "byte (CHR 0x0D) = 13" "byte (CHR 0x09) = 9" "byte (CHR 0x20) = 32"
  by (simp_all add: byte_def)







subsubsection \<open>UTF-8 and the strings the decoder produces\<close>



lemma utf8_width_le4: "utf8_width s \<le> 4"
  by (cases s) (auto split: list.splits)











lemma valid_utf8_ascii: "byte c < 0x80 \<Longrightarrow> valid_utf8 (c # s) = valid_utf8 s"
  by simp


















subsubsection \<open>The decoder produces well-formed values\<close>








subsubsection \<open>Trimming and the first byte of a canonical text\<close>
















subsubsection \<open>Reading a canonical text back\<close>


lemma number_stop_simps [simp]:
  "number_stop []" "number_stop (CHR '','' # r)" "number_stop (CHR '']'' # r)" "number_stop (CHR ''}'' # r)"
  by (simp_all add: number_stop_def)












subsubsection \<open>Canonicalising canonical texts and shuffled objects\<close>



lemma settles_numbers_id: "settles_numbers (\<lambda>lit. lit)"
  by (simp add: settles_numbers_def)














lemma quoted_example:
  "object_text (\<lambda>lit. lit) [(''b'', JNumber ''1''), (''a'', JArray [JBool True])] =
     ''{'' @ quote ''b'' @ '':1,'' @ quote ''a'' @ '':[true]}''"
  by (simp add: object_text_def member_text_def)

end
